theory Spec2Isabelle
  imports Main "HOL-Library.Word"
begin

unbundle bit_operations_syntax

section \<open>The command-line Modbus client of \<^verbatim>\<open>main.go\<close>\<close>

text \<open>
  The embedding follows \<^verbatim>\<open>main.go\<close> function by function. Go's \<^verbatim>\<open>int\<close> and
  \<^verbatim>\<open>time.Duration\<close> are 64-bit signed integers: they are modelled as \<open>int\<close>, with the
  wrap-around written out (\<open>int64\<close>) wherever the program computes with them. The
  narrowing conversions \<^verbatim>\<open>uint16(x)\<close> of an \<^verbatim>\<open>int\<close> are \<open>word_of_int\<close>. Errors built
  by \<^verbatim>\<open>fmt.Errorf\<close> are the message strings themselves.
\<close>

subsection \<open>Standard library and collaborator interfaces\<close>

definition int64 :: "int \<Rightarrow> int" where
  "int64 x = (x + 2 ^ 63) mod 2 ^ 64 - 2 ^ 63"

text \<open>
  The functions of Go's standard library that the program calls on text and on
  \<^verbatim>\<open>float64\<close> values are parameters of the model. The type \<open>'f\<close> stands for
  \<^verbatim>\<open>float64\<close>. A failing conversion carries the text of the library's error.
  \<^item> \<open>Atoi\<close> is \<^verbatim>\<open>strconv.Atoi\<close>;
  \<^item> \<open>ParseFloat\<close> is \<^verbatim>\<open>strconv.ParseFloat(s, 64)\<close>;
  \<^item> \<open>ToUint16\<close> and \<open>ToUint32\<close> are the conversions \<^verbatim>\<open>uint16(v)\<close> and \<^verbatim>\<open>uint32(v)\<close>;
  \<^item> \<open>NonZero\<close> is the test \<^verbatim>\<open>v != 0\<close>;
  \<^item> \<open>Seconds\<close> is \<^verbatim>\<open>time.Duration(v * float64(time.Second))\<close>, in nanoseconds.
\<close>

record 'f stdlib =
  Atoi :: "string \<Rightarrow> string + int"
  ParseFloat :: "string \<Rightarrow> string + 'f"
  ToUint16 :: "'f \<Rightarrow> 16 word"
  ToUint32 :: "'f \<Rightarrow> 32 word"
  NonZero :: "'f \<Rightarrow> bool"
  Seconds :: "'f \<Rightarrow> int"

definition Millisecond :: int where
  "Millisecond = 1000000"

definition Second :: int where
  "Second = 1000000000"

text \<open>\<^verbatim>\<open>strings.Contains(s, ",")\<close>, \<^verbatim>\<open>strings.Split(s, ",")[0]\<close> and
  \<^verbatim>\<open>strings.HasPrefix(s, "-")\<close> on byte strings.\<close>

definition ContainsChar :: "string \<Rightarrow> char \<Rightarrow> bool" where
  "ContainsChar s c = (c \<in> set s)"

definition SplitFirst :: "string \<Rightarrow> char \<Rightarrow> string" where
  "SplitFirst s c = takeWhile (\<lambda>x. x \<noteq> c) s"

definition HasPrefixDash :: "string \<Rightarrow> bool" where
  "HasPrefixDash s = (take 1 s = ''-'')"

subsection \<open>Configuration\<close>

record 'f Config =
  Mode :: string
  Host :: string
  Port :: int
  Device :: string
  Baudrate :: int
  Databits :: int
  Stopbits :: int
  Parity :: string
  Timeout :: int
  SlaveID :: int
  StartRef :: int
  Count :: int
  DataType :: string
  ZeroBased :: bool
  BigEndian :: bool
  PollOnce :: bool
  PollRate :: int
  Verbose :: bool
  WriteValues :: "'f list"
  RTSMode :: int
  RTSPin :: int

text \<open>The record literal at the head of \<^verbatim>\<open>parseArgs\<close>; the fields it leaves out have
  Go's zero values.\<close>

definition defaultConfig :: "'f Config" where
  "defaultConfig = \<lparr>
     Mode = ''tcp'', Host = '''', Port = 502, Device = '''',
     Baudrate = 19200, Databits = 8, Stopbits = 1, Parity = ''even'',
     Timeout = Second, SlaveID = 1, StartRef = 1, Count = 1, DataType = ''4'',
     ZeroBased = False, BigEndian = True, PollOnce = False, PollRate = Second,
     Verbose = False, WriteValues = [], RTSMode = 0, RTSPin = 0 \<rparr>"

subsection \<open>Validation\<close>

text \<open>\<^verbatim>\<open>validateConfig\<close>: \<open>None\<close> is Go's \<^verbatim>\<open>nil\<close> error.\<close>

definition validateConfig :: "'f Config \<Rightarrow> string option" where
  "validateConfig config =
    (if Count config < 1 \<or> Count config > 125 then
       Some ''count must be between 1 and 125''
     else if SlaveID config < 0 \<or> SlaveID config > 255 then
       Some ''slave address must be between 0 and 255''
     else if Baudrate config < 1200 \<or> Baudrate config > 921600 then
       Some ''baudrate must be between 1200 and 921600''
     else if Databits config \<noteq> 7 \<and> Databits config \<noteq> 8 then
       Some ''databits must be 7 or 8''
     else if Stopbits config \<noteq> 1 \<and> Stopbits config \<noteq> 2 then
       Some ''stopbits must be 1 or 2''
     else if \<not> (Parity config = ''none'' \<or> Parity config = ''even'' \<or> Parity config = ''odd'') then
       Some ''parity must be none, even, or odd''
     else if PollRate config < 10 * Millisecond then
       Some ''poll rate must be at least 10ms''
     else if Timeout config < 10 * Millisecond \<or> Timeout config > 10 * Second then
       Some ''timeout must be between 0.01 and 10.00 seconds''
     else None)"

subsection \<open>Argument parsing\<close>

datatype 'a result = Err string | HelpExit | VersionExit | Ok 'a

text \<open>The two loops of \<^verbatim>\<open>parseArgs\<close> that append write values: each token goes through
  \<^verbatim>\<open>strconv.ParseFloat\<close>, and the first token that fails ends the parse.\<close>

fun collectValues :: "'f stdlib \<Rightarrow> 'f list \<Rightarrow> string list \<Rightarrow> string + 'f list" where
  "collectValues lib acc [] = Inr acc"
| "collectValues lib acc (a # as) =
     (case ParseFloat lib a of
        Inl err \<Rightarrow> Inl (''invalid write value: '' @ a)
      | Inr val \<Rightarrow> collectValues lib (acc @ [val]) as)"

text \<open>One pass through the body of the \<^verbatim>\<open>for i < len(args)\<close> loop: either the loop goes
  on with a new index and configuration, or \<^verbatim>\<open>parseArgs\<close> returns.\<close>

datatype 'f step = Next nat "'f Config" | Return "'f Config result"

text \<open>The options \<^verbatim>\<open>-r\<close>, \<^verbatim>\<open>-c\<close>, \<^verbatim>\<open>-l\<close>, \<^verbatim>\<open>-p\<close>, \<^verbatim>\<open>-b\<close>, \<^verbatim>\<open>-d\<close> and \<^verbatim>\<open>-s\<close> have the same
  body in the source: fail when no token follows, convert the next token with
  \<^verbatim>\<open>strconv.Atoi\<close> and fail with \<^verbatim>\<open>invalid <what>: <err>\<close> when it is not a number, else store
  the number and skip two tokens. \<open>intOption\<close> is that body, with the name used in the
  message and the assignment as arguments.\<close>

definition intOption ::
  "'f stdlib \<Rightarrow> string list \<Rightarrow> nat \<Rightarrow> string \<Rightarrow> (int \<Rightarrow> 'f Config) \<Rightarrow> 'f step" where
  "intOption lib args i what store =
    (if i + 1 \<ge> length args then Return (Err (''missing value for '' @ args ! i))
     else case Atoi lib (args ! (i + 1)) of
        Inl err \<Rightarrow> Return (Err (''invalid '' @ what @ '': '' @ err))
      | Inr n \<Rightarrow> Next (i + 2) (store n))"

definition parseStep :: "'f stdlib \<Rightarrow> string list \<Rightarrow> nat \<Rightarrow> 'f Config \<Rightarrow> 'f step" where
  "parseStep lib args i config =
    (let arg = args ! i in
     if arg = ''-m'' \<or> arg = ''--mode'' then
       (if i + 1 \<ge> length args then Return (Err (''missing value for '' @ arg))
        else Next (i + 2) (config\<lparr>Mode := args ! (i + 1)\<rparr>))
     else if arg = ''-a'' \<or> arg = ''--address'' then
       (if i + 1 \<ge> length args then Return (Err (''missing value for '' @ arg))
        else
          let addrStr = args ! (i + 1);
              addrStr = (if ContainsChar addrStr CHR '','' \<or> ContainsChar addrStr CHR '':''
                         then SplitFirst addrStr CHR '','' else addrStr)
          in case Atoi lib addrStr of
               Inl err \<Rightarrow> Return (Err (''invalid slave address: '' @ err))
             | Inr addr \<Rightarrow> Next (i + 2) (config\<lparr>SlaveID := addr\<rparr>))
     else if arg = ''-r'' \<or> arg = ''--reference'' then
       intOption lib args i ''reference'' (\<lambda>ref. config\<lparr>StartRef := ref\<rparr>)
     else if arg = ''-c'' \<or> arg = ''--count'' then
       intOption lib args i ''count'' (\<lambda>count. config\<lparr>Count := count\<rparr>)
     else if arg = ''-t'' \<or> arg = ''--type'' then
       (if i + 1 \<ge> length args then Return (Err (''missing value for '' @ arg))
        else Next (i + 2) (config\<lparr>DataType := args ! (i + 1)\<rparr>))
     else if arg = ''-0'' \<or> arg = ''--zero-based'' then
       Next (i + 1) (config\<lparr>ZeroBased := True\<rparr>)
     else if arg = ''-B'' \<or> arg = ''--big-endian'' then
       Next (i + 1) (config\<lparr>BigEndian := True\<rparr>)
     else if arg = ''-1'' \<or> arg = ''--once'' then
       Next (i + 1) (config\<lparr>PollOnce := True\<rparr>)
     else if arg = ''-l'' \<or> arg = ''--poll-rate'' then
       intOption lib args i ''poll rate''
         (\<lambda>rate. config\<lparr>PollRate := int64 (rate * Millisecond)\<rparr>)
     else if arg = ''-o'' \<or> arg = ''--timeout'' then
       (if i + 1 \<ge> length args then Return (Err (''missing value for '' @ arg))
        else case ParseFloat lib (args ! (i + 1)) of
               Inl err \<Rightarrow> Return (Err (''invalid timeout: '' @ err))
             | Inr timeout \<Rightarrow> Next (i + 2) (config\<lparr>Timeout := Seconds lib timeout\<rparr>))
     else if arg = ''-p'' \<or> arg = ''--port'' then
       intOption lib args i ''port'' (\<lambda>port. config\<lparr>Port := port\<rparr>)
     else if arg = ''-b'' \<or> arg = ''--baudrate'' then
       intOption lib args i ''baudrate'' (\<lambda>baudrate. config\<lparr>Baudrate := baudrate\<rparr>)
     else if arg = ''-d'' \<or> arg = ''--databits'' then
       intOption lib args i ''databits'' (\<lambda>databits. config\<lparr>Databits := databits\<rparr>)
     else if arg = ''-s'' \<or> arg = ''--stopbits'' then
       intOption lib args i ''stopbits'' (\<lambda>stopbits. config\<lparr>Stopbits := stopbits\<rparr>)
     else if arg = ''-P'' \<or> arg = ''--parity'' then
       (if i + 1 \<ge> length args then Return (Err (''missing value for '' @ arg))
        else Next (i + 2) (config\<lparr>Parity := args ! (i + 1)\<rparr>))
     else if arg = ''-v'' \<or> arg = ''--verbose'' then
       Next (i + 1) (config\<lparr>Verbose := True\<rparr>)
     else if arg = ''-h'' \<or> arg = ''--help'' then Return HelpExit
     else if arg = ''-V'' \<or> arg = ''--version'' then Return VersionExit
     else if arg = ''--'' then
       (case collectValues lib [] (drop (i + 1) args) of
          Inl e \<Rightarrow> Return (Err e)
        | Inr vals \<Rightarrow> Next i (config\<lparr>WriteValues := vals\<rparr>))
     else if HasPrefixDash arg then Return (Err (''unknown option: '' @ arg))
     else if Host config = '''' \<and> Device config = '''' then
       (if Mode config = ''tcp'' then Next (i + 1) (config\<lparr>Host := arg\<rparr>)
        else Next (i + 1) (config\<lparr>Device := arg\<rparr>))
     else if length (WriteValues config) = 0 then
       (case collectValues lib (WriteValues config) (drop i args) of
          Inl e \<Rightarrow> Return (Err e)
        | Inr vals \<Rightarrow> Next (length args + 1) (config\<lparr>WriteValues := vals\<rparr>))
     else Next (i + 1) config)"

text \<open>What follows the loop in \<^verbatim>\<open>parseArgs\<close>: the missing-target check and validation.\<close>

definition parseFinish :: "'f Config \<Rightarrow> 'f Config result" where
  "parseFinish config =
    (if Host config = '''' \<and> Device config = '''' then
       Err ''device or host parameter missing ! Try -h for help''
     else case validateConfig config of
        Some err \<Rightarrow> Err err
      | None \<Rightarrow> Ok config)"

text \<open>The loop itself. The first argument bounds the number of passes: \<open>None\<close> says that
  the loop is still running after that many passes.\<close>

fun parseLoop ::
  "'f stdlib \<Rightarrow> nat \<Rightarrow> string list \<Rightarrow> nat \<Rightarrow> 'f Config \<Rightarrow> 'f Config result option" where
  "parseLoop lib 0 args i config = None"
| "parseLoop lib (Suc fuel) args i config =
    (if i < length args then
       (case parseStep lib args i config of
          Return r \<Rightarrow> Some r
        | Next i' config' \<Rightarrow> parseLoop lib fuel args i' config')
     else Some (parseFinish config))"

definition parseArgs :: "'f stdlib \<Rightarrow> nat \<Rightarrow> string list \<Rightarrow> 'f Config result option" where
  "parseArgs lib fuel args = parseLoop lib fuel args 0 defaultConfig"

subsection \<open>Transport selection\<close>

text \<open>\<^verbatim>\<open>setupClient\<close> builds the URL given to \<^verbatim>\<open>modbus.NewClient\<close> from \<open>Mode\<close>. The URL
  is kept in parts: the scheme, and what follows \<^verbatim>\<open>://\<close> (host and port, or the device).
  The other fields of the client configuration and the library's own answer are left
  out.\<close>

datatype endpoint = HostPort string string int | SerialDevice string string

definition setupClient :: "'f Config \<Rightarrow> string + endpoint" where
  "setupClient config =
    (if Mode config = ''tcp'' then Inr (HostPort ''tcp'' (Host config) (Port config))
     else if Mode config = ''tls'' then Inr (HostPort ''tls'' (Host config) (Port config))
     else if Mode config = ''udp'' then Inr (HostPort ''udp'' (Host config) (Port config))
     else if Mode config = ''rtu'' then Inr (SerialDevice ''rtu'' (Device config))
     else if Mode config = ''rtuovertcp'' then
       Inr (HostPort ''rtuovertcp'' (Host config) (Port config))
     else if Mode config = ''rtuoverudp'' then
       Inr (HostPort ''rtuoverudp'' (Host config) (Port config))
     else Inl (''unsupported mode: '' @ Mode config @
               '' (supported: tcp, tls, udp, rtu, rtuovertcp, rtuoverudp)''))"

subsection \<open>Session settings\<close>

text \<open>\<^verbatim>\<open>connect\<close> opens the session and then fixes the unit identifier and the encoding
  that the library uses for every later call: the byte order follows \<open>BigEndian\<close>, the
  word order is always \<^verbatim>\<open>modbus.LOW_WORD_FIRST\<close>. The answer of \<^verbatim>\<open>client.Open()\<close> is an
  argument (\<open>None\<close> for success); the settings are returned as a record.\<close>

datatype Endianness = BIG_ENDIAN | LITTLE_ENDIAN

datatype WordOrder = HIGH_WORD_FIRST | LOW_WORD_FIRST

record session =
  unitId :: "8 word"
  byteOrder :: Endianness
  wordOrder :: WordOrder

definition connect :: "string option \<Rightarrow> 'f Config \<Rightarrow> string + session" where
  "connect opened config =
    (case opened of
       Some err \<Rightarrow> Inl (''failed to connect: '' @ err)
     | None \<Rightarrow>
         Inr \<lparr> unitId = word_of_int (SlaveID config),
               byteOrder = (if \<not> BigEndian config then LITTLE_ENDIAN else BIG_ENDIAN),
               wordOrder = LOW_WORD_FIRST \<rparr>)"

subsection \<open>The Modbus client library and the program's effects\<close>

datatype regType = HOLDING_REGISTER | INPUT_REGISTER

text \<open>
  The Modbus client (\<^verbatim>\<open>github.com/simonvetter/modbus\<close>) is a collaborator with a state of
  its own, of type \<open>'s\<close>: each call takes the state and gives back an answer and the next
  state. A \<^verbatim>\<open>float32\<close> is carried as its bit pattern, which is what
  \<^verbatim>\<open>math.Float32frombits\<close> reinterprets.
\<close>

record 's client =
  ReadCoils :: "'s \<Rightarrow> 16 word \<Rightarrow> 16 word \<Rightarrow> (string + bool list) \<times> 's"
  ReadDiscreteInputs :: "'s \<Rightarrow> 16 word \<Rightarrow> 16 word \<Rightarrow> (string + bool list) \<times> 's"
  ReadRegisters :: "'s \<Rightarrow> 16 word \<Rightarrow> 16 word \<Rightarrow> regType \<Rightarrow> (string + 16 word list) \<times> 's"
  WriteCoils :: "'s \<Rightarrow> 16 word \<Rightarrow> bool list \<Rightarrow> string option \<times> 's"
  WriteRegisters :: "'s \<Rightarrow> 16 word \<Rightarrow> 16 word list \<Rightarrow> string option \<times> 's"
  WriteUint32s :: "'s \<Rightarrow> 16 word \<Rightarrow> 32 word list \<Rightarrow> string option \<times> 's"
  WriteFloat32s :: "'s \<Rightarrow> 16 word \<Rightarrow> 32 word list \<Rightarrow> string option \<times> 's"

datatype call =
    ReadCoilsCall "16 word" "16 word"
  | ReadDiscreteInputsCall "16 word" "16 word"
  | ReadRegistersCall "16 word" "16 word" regType
  | WriteCoilsCall "16 word" "bool list"
  | WriteRegistersCall "16 word" "16 word list"
  | WriteUint32sCall "16 word" "32 word list"
  | WriteFloat32sCall "16 word" "32 word list"

text \<open>What the program prints, line by line, before \<^verbatim>\<open>fmt.Printf\<close> renders it: the
  arguments of each format string. \<open>Annotated\<close> lines are those of \<^verbatim>\<open>printRegisters\<close>.\<close>

datatype annotation = Plain | Hex "16 word" | AsInt32 int | AsFloat32 "32 word"

datatype line =
    Heading string int int
  | BitLine int int
  | Annotated int "16 word" annotation
  | Wrote nat string int
  | EchoReg int "16 word"
  | EchoInt32 int "32 word"
  | EchoFloat32 int "32 word"
  | ConfigLines string int string string int int char int int int

datatype event = Call call | Sleep int | Print line

type_synonym 's outcome = "string option \<times> 's \<times> event list"

definition boolToInt :: "bool \<Rightarrow> int" where
  "boolToInt b = (if b then 1 else 0)"

subsection \<open>Wide values\<close>

text \<open>The write path of \<^verbatim>\<open>writeHoldingRegisters\<close> joins two \<^verbatim>\<open>uint32\<close> halves
  (\<^verbatim>\<open>high<<16 | low\<close>, or \<^verbatim>\<open>low<<16 | high\<close>); the read path of \<^verbatim>\<open>printRegisters\<close>
  joins two registers widened to 32 bits in the same way.\<close>

definition wideOfValues :: "bool \<Rightarrow> 32 word \<Rightarrow> 32 word \<Rightarrow> 32 word" where
  "wideOfValues bigEndian high low =
    (if bigEndian then push_bit 16 high OR low else push_bit 16 low OR high)"

definition wideOfRegisters :: "bool \<Rightarrow> 16 word \<Rightarrow> 16 word \<Rightarrow> 32 word" where
  "wideOfRegisters bigEndian r0 r1 =
    (if bigEndian then push_bit 16 (ucast r0) OR ucast r1
     else push_bit 16 (ucast r1) OR ucast r0)"

subsection \<open>Read operations\<close>

definition bitLines :: "int \<Rightarrow> bool list \<Rightarrow> event list" where
  "bitLines startRef bits =
    map (\<lambda>i. Print (BitLine (int64 (startRef + int i)) (boolToInt (bits ! i))))
      [0..<length bits]"

definition readCoils :: "'s client \<Rightarrow> 'f Config \<Rightarrow> int \<Rightarrow> 's \<Rightarrow> 's outcome" where
  "readCoils cl config startRef s =
    (let c = Call (ReadCoilsCall (word_of_int startRef) (word_of_int (Count config))) in
     case ReadCoils cl s (word_of_int startRef) (word_of_int (Count config)) of
       (Inl err, s') \<Rightarrow> (Some (''failed to read coils: '' @ err), s', [c])
     | (Inr coils, s') \<Rightarrow>
         (None, s',
          c # Print (Heading ''Coils'' startRef (int64 (startRef + Count config - 1)))
            # bitLines startRef coils))"

definition readDiscreteInputs :: "'s client \<Rightarrow> 'f Config \<Rightarrow> int \<Rightarrow> 's \<Rightarrow> 's outcome" where
  "readDiscreteInputs cl config startRef s =
    (let c = Call (ReadDiscreteInputsCall (word_of_int startRef) (word_of_int (Count config))) in
     case ReadDiscreteInputs cl s (word_of_int startRef) (word_of_int (Count config)) of
       (Inl err, s') \<Rightarrow> (Some (''failed to read discrete inputs: '' @ err), s', [c])
     | (Inr inputs, s') \<Rightarrow>
         (None, s',
          c # Print (Heading ''Discrete Inputs'' startRef (int64 (startRef + Count config - 1)))
            # bitLines startRef inputs))"

text \<open>\<^verbatim>\<open>printRegisters\<close>. The \<^verbatim>\<open>i++\<close> inside its \<^verbatim>\<open>range\<close> loop changes the loop variable for
  the rest of that pass only, after the address has been printed: the next pass starts
  from the next index all the same.\<close>

definition registerNote :: "'f Config \<Rightarrow> 16 word list \<Rightarrow> nat \<Rightarrow> annotation" where
  "registerNote config registers i =
    (if DataType config = ''3:hex'' \<or> DataType config = ''4:hex'' then Hex (registers ! i)
     else if DataType config = ''3:int'' \<or> DataType config = ''4:int'' then
       (if i mod 2 = 0 \<and> i + 1 < length registers then
          AsInt32 (sint (wideOfRegisters (BigEndian config) (registers ! i) (registers ! (i + 1))))
        else Plain)
     else if DataType config = ''3:float'' \<or> DataType config = ''4:float'' then
       (if i mod 2 = 0 \<and> i + 1 < length registers then
          AsFloat32 (wideOfRegisters (BigEndian config) (registers ! i) (registers ! (i + 1)))
        else Plain)
     else Plain)"

definition printRegisters :: "'f Config \<Rightarrow> int \<Rightarrow> 16 word list \<Rightarrow> string \<Rightarrow> event list" where
  "printRegisters config startRef registers regType =
    Print (Heading regType startRef (int64 (startRef + Count config - 1)))
    # map (\<lambda>i. Print (Annotated (int64 (startRef + int i)) (registers ! i)
                        (registerNote config registers i)))
        [0..<length registers]"

definition readInputRegisters :: "'s client \<Rightarrow> 'f Config \<Rightarrow> int \<Rightarrow> 's \<Rightarrow> 's outcome" where
  "readInputRegisters cl config startRef s =
    (let c = Call (ReadRegistersCall (word_of_int startRef) (word_of_int (Count config))
                     INPUT_REGISTER) in
     case ReadRegisters cl s (word_of_int startRef) (word_of_int (Count config)) INPUT_REGISTER of
       (Inl err, s') \<Rightarrow> (Some (''failed to read input registers: '' @ err), s', [c])
     | (Inr registers, s') \<Rightarrow>
         (None, s', c # printRegisters config startRef registers ''Input Registers''))"

definition readHoldingRegisters :: "'s client \<Rightarrow> 'f Config \<Rightarrow> int \<Rightarrow> 's \<Rightarrow> 's outcome" where
  "readHoldingRegisters cl config startRef s =
    (let c = Call (ReadRegistersCall (word_of_int startRef) (word_of_int (Count config))
                     HOLDING_REGISTER) in
     case ReadRegisters cl s (word_of_int startRef) (word_of_int (Count config)) HOLDING_REGISTER of
       (Inl err, s') \<Rightarrow> (Some (''failed to read holding registers: '' @ err), s', [c])
     | (Inr registers, s') \<Rightarrow>
         (None, s', c # printRegisters config startRef registers ''Holding Registers''))"

definition performOperation :: "'s client \<Rightarrow> 'f Config \<Rightarrow> int \<Rightarrow> 's \<Rightarrow> 's outcome" where
  "performOperation cl config startRef s =
    (if DataType config = ''0'' then readCoils cl config startRef s
     else if DataType config = ''1'' then readDiscreteInputs cl config startRef s
     else if DataType config \<in> set [''3'', ''3:hex'', ''3:int'', ''3:float''] then
       readInputRegisters cl config startRef s
     else if DataType config \<in> set [''4'', ''4:hex'', ''4:int'', ''4:float''] then
       readHoldingRegisters cl config startRef s
     else (Some (''unsupported data type: '' @ DataType config), s, []))"

subsection \<open>Write operations\<close>

definition writeCoils ::
  "'f stdlib \<Rightarrow> 's client \<Rightarrow> 'f Config \<Rightarrow> int \<Rightarrow> 's \<Rightarrow> 's outcome" where
  "writeCoils lib cl config startRef s =
    (if length (WriteValues config) = 0 then (Some ''no values to write'', s, [])
     else
       let coils = map (NonZero lib) (WriteValues config);
           c = Call (WriteCoilsCall (word_of_int startRef) coils)
       in case WriteCoils cl s (word_of_int startRef) coils of
            (Some err, s') \<Rightarrow> (Some (''failed to write coils: '' @ err), s', [c])
          | (None, s') \<Rightarrow>
              (None, s', c # Print (Wrote (length coils) ''coil'' startRef)
                           # bitLines startRef coils))"

text \<open>The loop \<^verbatim>\<open>for i := 0; i < len(WriteValues); i += 2\<close> fills \<^verbatim>\<open>values[i/2]\<close> from the
  values at \<^verbatim>\<open>i\<close> and \<^verbatim>\<open>i+1\<close>; it runs only when the length is even.\<close>

definition pairValues :: "'f stdlib \<Rightarrow> 'f Config \<Rightarrow> 32 word list" where
  "pairValues lib config =
    map (\<lambda>k. wideOfValues (BigEndian config)
               (ToUint32 lib (WriteValues config ! (2 * k)))
               (ToUint32 lib (WriteValues config ! (2 * k + 1))))
      [0..<length (WriteValues config) div 2]"

definition writeHoldingRegisters ::
  "'f stdlib \<Rightarrow> 's client \<Rightarrow> 'f Config \<Rightarrow> int \<Rightarrow> 's \<Rightarrow> 's outcome" where
  "writeHoldingRegisters lib cl config startRef s =
    (if length (WriteValues config) = 0 then (Some ''no values to write'', s, [])
     else if DataType config = ''4'' then
       (let registers = map (ToUint16 lib) (WriteValues config);
            c = Call (WriteRegistersCall (word_of_int startRef) registers)
        in case WriteRegisters cl s (word_of_int startRef) registers of
             (Some err, s') \<Rightarrow> (Some (''failed to write holding registers: '' @ err), s', [c])
           | (None, s') \<Rightarrow>
               (None, s',
                c # Print (Wrote (length registers) ''16-bit register'' startRef)
                  # map (\<lambda>i. Print (EchoReg (int64 (startRef + int i)) (registers ! i)))
                      [0..<length registers]))
     else if DataType config = ''4:int'' then
       (if length (WriteValues config) mod 2 \<noteq> 0 then
          (Some ''32-bit integers require even number of values'', s, [])
        else
          let values = pairValues lib config;
              c = Call (WriteUint32sCall (word_of_int startRef) values)
          in case WriteUint32s cl s (word_of_int startRef) values of
               (Some err, s') \<Rightarrow> (Some (''failed to write 32-bit integers: '' @ err), s', [c])
             | (None, s') \<Rightarrow>
                 (None, s',
                  c # Print (Wrote (length values) ''32-bit integer'' startRef)
                    # map (\<lambda>i. Print (EchoInt32 (int64 (startRef + int64 (int i * 2))) (values ! i)))
                        [0..<length values]))
     else if DataType config = ''4:float'' then
       (if length (WriteValues config) mod 2 \<noteq> 0 then
          (Some ''32-bit floats require even number of values'', s, [])
        else
          let values = pairValues lib config;
              c = Call (WriteFloat32sCall (word_of_int startRef) values)
          in case WriteFloat32s cl s (word_of_int startRef) values of
               (Some err, s') \<Rightarrow> (Some (''failed to write 32-bit floats: '' @ err), s', [c])
             | (None, s') \<Rightarrow>
                 (None, s',
                  c # Print (Wrote (length values) ''32-bit float'' startRef)
                    # map (\<lambda>i. Print (EchoFloat32 (int64 (startRef + int64 (int i * 2))) (values ! i)))
                        [0..<length values]))
     else (None, s, []))"

definition performWriteOperation ::
  "'f stdlib \<Rightarrow> 's client \<Rightarrow> 'f Config \<Rightarrow> int \<Rightarrow> 's \<Rightarrow> 's outcome" where
  "performWriteOperation lib cl config startRef s =
    (if length (WriteValues config) = 0 then (Some ''no write values provided'', s, [])
     else if DataType config = ''0'' then writeCoils lib cl config startRef s
     else if DataType config \<in> set [''4'', ''4:hex'', ''4:int'', ''4:float''] then
       writeHoldingRegisters lib cl config startRef s
     else (Some (''write operations not supported for data type: '' @ DataType config), s, []))"

subsection \<open>Running the request\<close>

definition getParityChar :: "'f Config \<Rightarrow> char" where
  "getParityChar config =
    (if Parity config = ''none'' then CHR ''N''
     else if Parity config = ''even'' then CHR ''E''
     else if Parity config = ''odd'' then CHR ''O''
     else CHR ''E'')"

definition printConfig :: "'f Config \<Rightarrow> event list" where
  "printConfig config =
    [Print (ConfigLines (Mode config) (SlaveID config) (DataType config) (Device config)
       (Baudrate config) (Databits config) (getParityChar config) (Stopbits config)
       (Timeout config) (PollRate config))]"

definition after :: "event list \<Rightarrow> 's outcome \<Rightarrow> 's outcome" where
  "after evs out = (case out of (r, s, evs') \<Rightarrow> (r, s, evs @ evs'))"

text \<open>The \<^verbatim>\<open>for\<close> loop of \<^verbatim>\<open>execute\<close>. The first argument bounds the number of reads:
  \<open>None\<close> says that the loop is still polling after that many.\<close>

fun pollLoop :: "nat \<Rightarrow> 's client \<Rightarrow> 'f Config \<Rightarrow> int \<Rightarrow> 's \<Rightarrow> 's outcome option" where
  "pollLoop 0 cl config startRef s = None"
| "pollLoop (Suc fuel) cl config startRef s =
    (case performOperation cl config startRef s of
       (Some err, s', evs) \<Rightarrow> Some (Some err, s', evs)
     | (None, s', evs) \<Rightarrow>
         if PollOnce config then Some (None, s', evs)
         else map_option (after (evs @ [Sleep (PollRate config)]))
                (pollLoop fuel cl config startRef s'))"

definition execute ::
  "'f stdlib \<Rightarrow> 's client \<Rightarrow> nat \<Rightarrow> 'f Config \<Rightarrow> 's \<Rightarrow> 's outcome option" where
  "execute lib cl fuel config s =
    (let startRef = (if ZeroBased config then 0 else StartRef config);
         shown = (if Verbose config then printConfig config else [])
     in if length (WriteValues config) > 0 then
          Some (after shown (performWriteOperation lib cl config startRef s))
        else map_option (after shown) (pollLoop fuel cl config startRef s))"

subsection \<open>Sample instances of the two interfaces\<close>

text \<open>For running the model on concrete command lines: a library instance that reads
  whole decimal numerals (with an optional minus sign) and takes \<^verbatim>\<open>float64\<close> values to be
  whole numbers, and a stub Modbus server whose state counts the requests served: it
  answers every write, and answers reads with zeroes until \<open>limit\<close> requests have been
  served, after which reads time out.\<close>

fun decimal :: "int \<Rightarrow> string \<Rightarrow> int option" where
  "decimal acc [] = Some acc"
| "decimal acc (c # cs) =
     (if 48 \<le> (of_char c :: int) \<and> (of_char c :: int) \<le> 57
      then decimal (10 * acc + (of_char c - 48)) cs else None)"

definition sampleAtoi :: "string \<Rightarrow> string + int" where
  "sampleAtoi s =
    (case s of
       [] \<Rightarrow> Inl ''invalid syntax''
     | c # cs \<Rightarrow>
         if c = CHR ''-'' \<and> cs \<noteq> [] then
           (case decimal 0 cs of None \<Rightarrow> Inl ''invalid syntax'' | Some n \<Rightarrow> Inr (- n))
         else (case decimal 0 s of None \<Rightarrow> Inl ''invalid syntax'' | Some n \<Rightarrow> Inr n))"

definition sampleLib :: "int stdlib" where
  "sampleLib = \<lparr> Atoi = sampleAtoi, ParseFloat = sampleAtoi,
     ToUint16 = word_of_int, ToUint32 = word_of_int,
     NonZero = (\<lambda>v. v \<noteq> 0), Seconds = (\<lambda>v. int64 (v * Second)) \<rparr>"

definition stubRead :: "nat \<Rightarrow> 'a \<Rightarrow> nat \<Rightarrow> 16 word \<Rightarrow> (string + 'a list) \<times> nat" where
  "stubRead limit zero s quantity =
    (if s < limit then (Inr (replicate (unat quantity) zero), s + 1)
     else (Inl ''request timed out'', s + 1))"

definition stubClient :: "nat \<Rightarrow> nat client" where
  "stubClient limit = \<lparr>
     ReadCoils = (\<lambda>s addr quantity. stubRead limit False s quantity),
     ReadDiscreteInputs = (\<lambda>s addr quantity. stubRead limit False s quantity),
     ReadRegisters = (\<lambda>s addr quantity regType. stubRead limit 0 s quantity),
     WriteCoils = (\<lambda>s addr values. (None, s + 1)),
     WriteRegisters = (\<lambda>s addr values. (None, s + 1)),
     WriteUint32s = (\<lambda>s addr values. (None, s + 1)),
     WriteFloat32s = (\<lambda>s addr values. (None, s + 1)) \<rparr>"

text \<open>A second stub server keeps a bank of registers, so that what one run writes a later
  run reads back. It stands for the library together with the device, under the settings
  of the session: a 32-bit value is stored as two registers in the word order of the
  session, as the names of the library's constants say (\<^verbatim>\<open>LOW_WORD_FIRST\<close>: the low half
  goes to the first register, the one at the lower address). The byte order concerns the
  bytes inside one register on the wire and does not show in register values that are
  written and read under the same session. The bank has no coils.\<close>

definition splitWide :: "WordOrder \<Rightarrow> 32 word \<Rightarrow> 16 word list" where
  "splitWide order w =
    (case order of
       HIGH_WORD_FIRST \<Rightarrow> [ucast (drop_bit 16 w), ucast w]
     | LOW_WORD_FIRST \<Rightarrow> [ucast w, ucast (drop_bit 16 w)])"

definition bankStore ::
  "16 word list \<Rightarrow> 16 word \<Rightarrow> 16 word list \<Rightarrow> string option \<times> 16 word list" where
  "bankStore bank addr regs =
    (if unat addr + length regs \<le> length bank then
       (None, take (unat addr) bank @ regs @ drop (unat addr + length regs) bank)
     else (Some ''illegal data address'', bank))"

definition bankClient :: "session \<Rightarrow> (16 word list) client" where
  "bankClient sess = \<lparr>
     ReadCoils = (\<lambda>bank addr quantity. (Inl ''illegal function'', bank)),
     ReadDiscreteInputs = (\<lambda>bank addr quantity. (Inl ''illegal function'', bank)),
     ReadRegisters = (\<lambda>bank addr quantity regType.
       if unat addr + unat quantity \<le> length bank then
         (Inr (take (unat quantity) (drop (unat addr) bank)), bank)
       else (Inl ''illegal data address'', bank)),
     WriteCoils = (\<lambda>bank addr values. (Some ''illegal function'', bank)),
     WriteRegisters = (\<lambda>bank addr values. bankStore bank addr values),
     WriteUint32s = (\<lambda>bank addr values.
       bankStore bank addr (concat (map (splitWide (wordOrder sess)) values))),
     WriteFloat32s = (\<lambda>bank addr values.
       bankStore bank addr (concat (map (splitWide (wordOrder sess)) values))) \<rparr>"

subsection \<open>Vocabulary for stating the properties\<close>

text \<open>The spec's list of validation constraints, in its order, each with the message that
  names the legal range; \<open>firstViolation\<close> is the message of the first constraint that a
  configuration breaks.\<close>

definition specConstraints :: "(('f Config \<Rightarrow> bool) \<times> string) list" where
  "specConstraints =
    [(\<lambda>c. 1 \<le> Count c \<and> Count c \<le> 125, ''count must be between 1 and 125''),
     (\<lambda>c. 0 \<le> SlaveID c \<and> SlaveID c \<le> 255, ''slave address must be between 0 and 255''),
     (\<lambda>c. 1200 \<le> Baudrate c \<and> Baudrate c \<le> 921600,
        ''baudrate must be between 1200 and 921600''),
     (\<lambda>c. Databits c \<in> {7, 8}, ''databits must be 7 or 8''),
     (\<lambda>c. Stopbits c \<in> {1, 2}, ''stopbits must be 1 or 2''),
     (\<lambda>c. Parity c \<in> {''none'', ''even'', ''odd''}, ''parity must be none, even, or odd''),
     (\<lambda>c. 10 * Millisecond \<le> PollRate c, ''poll rate must be at least 10ms''),
     (\<lambda>c. 10 * Millisecond \<le> Timeout c \<and> Timeout c \<le> 10 * Second,
        ''timeout must be between 0.01 and 10.00 seconds'')]"

definition firstViolation :: "'f Config \<Rightarrow> string option" where
  "firstViolation c = map_option snd (find (\<lambda>k. \<not> fst k c) specConstraints)"

text \<open>Projections of a run's effects: the requests sent to the Modbus client, the sleeps,
  the echo lines of wide values, and the start address of a request.\<close>

definition events :: "'s outcome \<Rightarrow> event list" where
  "events out = snd (snd out)"

fun requests :: "event list \<Rightarrow> call list" where
  "requests [] = []"
| "requests (Call c # es) = c # requests es"
| "requests (Sleep d # es) = requests es"
| "requests (Print l # es) = requests es"

fun naps :: "event list \<Rightarrow> int list" where
  "naps [] = []"
| "naps (Call c # es) = naps es"
| "naps (Sleep d # es) = d # naps es"
| "naps (Print l # es) = naps es"

fun wideEchoes :: "event list \<Rightarrow> line list" where
  "wideEchoes [] = []"
| "wideEchoes (Print (EchoInt32 a v) # es) = EchoInt32 a v # wideEchoes es"
| "wideEchoes (Print (EchoFloat32 a v) # es) = EchoFloat32 a v # wideEchoes es"
| "wideEchoes (e # es) = wideEchoes es"

fun address :: "call \<Rightarrow> 16 word" where
  "address (ReadCoilsCall a n) = a"
| "address (ReadDiscreteInputsCall a n) = a"
| "address (ReadRegistersCall a n t) = a"
| "address (WriteCoilsCall a v) = a"
| "address (WriteRegistersCall a v) = a"
| "address (WriteUint32sCall a v) = a"
| "address (WriteFloat32sCall a v) = a"

text \<open>The state of the Modbus client after \<open>k\<close> reads of the polling loop.\<close>

fun pollState :: "'s client \<Rightarrow> 'f Config \<Rightarrow> int \<Rightarrow> 's \<Rightarrow> nat \<Rightarrow> 's" where
  "pollState cl config a s 0 = s"
| "pollState cl config a s (Suc k) =
     pollState cl config a (fst (snd (performOperation cl config a s))) k"

text \<open>The start address that \<^verbatim>\<open>execute\<close> computes, and what it prints first.\<close>

definition startAddress :: "'f Config \<Rightarrow> int" where
  "startAddress config = (if ZeroBased config then 0 else StartRef config)"

definition shown :: "'f Config \<Rightarrow> event list" where
  "shown config = (if Verbose config then printConfig config else [])"

section \<open>Properties\<close>

subsection \<open>Auxiliary facts\<close>

lemma validateConfig_None:
  "(validateConfig c = None) =
     (1 \<le> Count c \<and> Count c \<le> 125 \<and> 0 \<le> SlaveID c \<and> SlaveID c \<le> 255
      \<and> 1200 \<le> Baudrate c \<and> Baudrate c \<le> 921600
      \<and> (Databits c = 7 \<or> Databits c = 8) \<and> (Stopbits c = 1 \<or> Stopbits c = 2)
      \<and> (Parity c = ''none'' \<or> Parity c = ''even'' \<or> Parity c = ''odd'')
      \<and> 10 * Millisecond \<le> PollRate c
      \<and> 10 * Millisecond \<le> Timeout c \<and> Timeout c \<le> 10 * Second)"
  by (simp add: validateConfig_def not_le not_less)

lemma validateConfig_firstViolation: "validateConfig c = firstViolation c"
  by (simp add: validateConfig_def firstViolation_def specConstraints_def not_le not_less)

lemma validateConfig_StartRef:
  "validateConfig (config\<lparr>StartRef := r\<rparr>) = validateConfig config"
  by (simp add: validateConfig_def)

lemma split_high: 
  "ucast (drop_bit 16 (push_bit 16 (ucast (hi :: 16 word)) OR ucast (lo :: 16 word) :: 32 word)) = hi"
  by (rule bit_word_eqI) (auto simp add: bit_simps dest: bit_imp_le_length)

lemma split_low:
  "ucast (push_bit 16 (ucast (hi :: 16 word)) OR ucast (lo :: 16 word) :: 32 word) = lo"
  by (rule bit_word_eqI) (auto simp add: bit_simps)

lemma uint_narrow: "uint (word_of_int a :: 16 word) = a mod 2 ^ 16"
  by (simp add: uint_word_of_int take_bit_eq_mod)

text \<open>The parser: what one pass and the whole loop preserve.\<close>

lemma intOption_Next:
  "intOption lib args i what store = Next i' config' \<Longrightarrow> \<exists>n. config' = store n"
  by (auto simp add: intOption_def split: if_splits sum.splits)

lemma parseStep_BigEndian:
  assumes "parseStep lib args i config = Next i' config'" "BigEndian config"
  shows "BigEndian config'"
  using assms unfolding parseStep_def Let_def
  by (auto split: if_splits sum.splits dest!: intOption_Next)

lemma parseLoop_BigEndian:
  "parseLoop lib fuel args i config = Some (Ok config') \<Longrightarrow> BigEndian config
   \<Longrightarrow> BigEndian config'"
proof (induction fuel arbitrary: i config)
  case 0
  then show ?case by simp
next
  case (Suc fuel)
  show ?case
  proof (cases "i < length args")
    case True
    show ?thesis
    proof (cases "parseStep lib args i config")
      case (Next j c)
      with Suc.prems True have "parseLoop lib fuel args j c = Some (Ok config')" by simp
      moreover have "BigEndian c" using parseStep_BigEndian[OF Next Suc.prems(2)] .
      ultimately show ?thesis by (rule Suc.IH)
    next
      case (Return r)
      with Suc.prems True have "r = Ok config'" by simp
      with Return show ?thesis unfolding parseStep_def Let_def
        by (auto simp add: intOption_def split: if_splits sum.splits)
    qed
  next
    case False
    with Suc.prems show ?thesis
      by (auto simp add: parseFinish_def split: if_splits option.splits)
  qed
qed

lemma parseStep_separator:
  assumes "args ! i = ''--''" "collectValues lib [] (drop (i + 1) args) = Inr vals"
  shows "parseStep lib args i config = Next i (config\<lparr>WriteValues := vals\<rparr>)"
  using assms by (simp add: parseStep_def)

lemma parseLoop_separator:
  assumes "i < length args" "args ! i = ''--''"
    and "collectValues lib [] (drop (i + 1) args) = Inr vals"
  shows "parseLoop lib fuel args i config = None"
proof (induction fuel arbitrary: config)
  case 0
  show ?case by simp
next
  case (Suc fuel)
  show ?case using assms(1) parseStep_separator[OF assms(2,3)] Suc.IH by simp
qed

text \<open>Effects of the operations: printing sends no request and never sleeps.\<close>

lemma requests_append: "requests (xs @ ys) = requests xs @ requests ys"
  by (induction xs rule: requests.induct) simp_all

lemma naps_append: "naps (xs @ ys) = naps xs @ naps ys"
  by (induction xs rule: naps.induct) simp_all

lemma requests_prints: "requests (map (\<lambda>i. Print (f i)) xs) = []"
  by (induction xs) simp_all

lemma naps_prints: "naps (map (\<lambda>i. Print (f i)) xs) = []"
  by (induction xs) simp_all

lemma requests_printRegisters: "requests (printRegisters config a regs t) = []"
  by (simp add: printRegisters_def requests_prints)

lemma requests_bitLines: "requests (bitLines a bits) = []"
  by (simp add: bitLines_def requests_prints)

lemma naps_bitLines: "naps (bitLines a bits) = []"
  by (simp add: bitLines_def naps_prints)

lemma naps_printRegisters: "naps (printRegisters config a regs t) = []"
  by (simp add: printRegisters_def naps_prints)

lemma requests_shown: "requests (shown config) = []"
  by (simp add: shown_def printConfig_def)

lemma naps_shown: "naps (shown config) = []"
  by (simp add: shown_def printConfig_def)

lemma events_after: "events (after evs out) = evs @ events out"
  by (simp add: events_def after_def split: prod.splits)

lemma wideEchoes_int:
  "wideEchoes (map (\<lambda>i. Print (EchoInt32 (f i) (g i))) xs) = map (\<lambda>i. EchoInt32 (f i) (g i)) xs"
  by (induction xs) simp_all

lemma wideEchoes_float:
  "wideEchoes (map (\<lambda>i. Print (EchoFloat32 (f i) (g i))) xs)
   = map (\<lambda>i. EchoFloat32 (f i) (g i)) xs"
  by (induction xs) simp_all

lemma length_pairValues: "length (pairValues lib config) = length (WriteValues config) div 2"
  by (simp add: pairValues_def)

lemma requests_performOperation:
  "requests (events (performOperation cl config a s)) =
    (if DataType config = ''0'' then [ReadCoilsCall (word_of_int a) (word_of_int (Count config))]
     else if DataType config = ''1'' then
       [ReadDiscreteInputsCall (word_of_int a) (word_of_int (Count config))]
     else if DataType config \<in> set [''3'', ''3:hex'', ''3:int'', ''3:float''] then
       [ReadRegistersCall (word_of_int a) (word_of_int (Count config)) INPUT_REGISTER]
     else if DataType config \<in> set [''4'', ''4:hex'', ''4:int'', ''4:float''] then
       [ReadRegistersCall (word_of_int a) (word_of_int (Count config)) HOLDING_REGISTER]
     else [])"
  by (auto simp add: performOperation_def events_def readCoils_def readDiscreteInputs_def
      readInputRegisters_def readHoldingRegisters_def Let_def requests_printRegisters
      requests_bitLines split: prod.splits sum.splits)

lemma requests_performWriteOperation:
  "requests (events (performWriteOperation lib cl config a s)) =
    (if WriteValues config = [] then []
     else if DataType config = ''0'' then
       [WriteCoilsCall (word_of_int a) (map (NonZero lib) (WriteValues config))]
     else if DataType config = ''4'' then
       [WriteRegistersCall (word_of_int a) (map (ToUint16 lib) (WriteValues config))]
     else if DataType config = ''4:int'' \<and> even (length (WriteValues config)) then
       [WriteUint32sCall (word_of_int a) (pairValues lib config)]
     else if DataType config = ''4:float'' \<and> even (length (WriteValues config)) then
       [WriteFloat32sCall (word_of_int a) (pairValues lib config)]
     else [])"
  by (auto simp add: performWriteOperation_def events_def writeCoils_def
      writeHoldingRegisters_def Let_def requests_prints
      requests_bitLines split: prod.splits option.splits)

lemma naps_performOperation: "naps (events (performOperation cl config a s)) = []"
  by (auto simp add: performOperation_def events_def readCoils_def readDiscreteInputs_def
      readInputRegisters_def readHoldingRegisters_def Let_def naps_printRegisters
      naps_bitLines split: prod.splits sum.splits)

lemma naps_performWriteOperation:
  "naps (events (performWriteOperation lib cl config a s)) = []"
  by (auto simp add: performWriteOperation_def events_def writeCoils_def
      writeHoldingRegisters_def Let_def naps_prints naps_bitLines
      split: prod.splits option.splits)

lemma requests_read_fixed:
  "requests (events (performOperation cl config a s)) =
   requests (events (performOperation cl config a t))"
  by (simp only: requests_performOperation)

lemma addresses_performOperation:
  "list_all (\<lambda>c. uint (address c) = a mod 2 ^ 16)
     (requests (events (performOperation cl config a s)))"
  by (simp add: requests_performOperation uint_narrow del: set_simps list.set)

lemma addresses_performWriteOperation:
  "list_all (\<lambda>c. uint (address c) = a mod 2 ^ 16)
     (requests (events (performWriteOperation lib cl config a s)))"
  by (simp add: requests_performWriteOperation uint_narrow)

text \<open>The operations never read \<open>StartRef\<close> from the configuration: the start address
  is their argument.\<close>

lemma performOperation_StartRef:
  "performOperation cl (config\<lparr>StartRef := r\<rparr>) a s = performOperation cl config a s"
  by (auto simp add: performOperation_def readCoils_def readDiscreteInputs_def
      readInputRegisters_def readHoldingRegisters_def printRegisters_def registerNote_def Let_def
      split: prod.splits sum.splits)

lemma performWriteOperation_StartRef:
  "performWriteOperation lib cl (config\<lparr>StartRef := r\<rparr>) a s
   = performWriteOperation lib cl config a s"
  by (auto simp add: performWriteOperation_def writeCoils_def writeHoldingRegisters_def
      pairValues_def Let_def split: prod.splits option.splits)

lemma pollLoop_StartRef:
  "pollLoop fuel cl (config\<lparr>StartRef := r\<rparr>) a s = pollLoop fuel cl config a s"
proof (induction fuel arbitrary: s)
  case 0
  show ?case by simp
next
  case (Suc fuel)
  show ?case
    by (simp add: Suc.IH performOperation_StartRef split: prod.splits option.splits)
qed

lemma execute_ZeroBased_StartRef:
  "ZeroBased config \<Longrightarrow>
   execute lib cl fuel (config\<lparr>StartRef := r\<rparr>) s = execute lib cl fuel config s"
  by (simp add: execute_def printConfig_def getParityChar_def pollLoop_StartRef
      performWriteOperation_StartRef)

text \<open>The polling loop.\<close>

lemma execute_unfold:
  "execute lib cl fuel config s =
    (if WriteValues config \<noteq> [] then
       Some (after (shown config) (performWriteOperation lib cl config (startAddress config) s))
     else map_option (after (shown config)) (pollLoop fuel cl config (startAddress config) s))"
  by (simp add: execute_def startAddress_def shown_def)

lemma pollLoop_once:
  "PollOnce config \<Longrightarrow>
   pollLoop (Suc fuel) cl config a s = Some (performOperation cl config a s)"
  by (simp split: prod.splits option.splits)

lemma pollLoop_stops:
  assumes "\<not> PollOnce config"
  shows "pollLoop fuel cl config a s = Some (r, s', evs) \<Longrightarrow>
    \<exists>k err. k < fuel \<and> r = Some err
      \<and> (\<forall>j<k. fst (performOperation cl config a (pollState cl config a s j)) = None)
      \<and> fst (performOperation cl config a (pollState cl config a s k)) = Some err
      \<and> naps evs = replicate k (PollRate config)
      \<and> requests evs =
          concat (replicate (Suc k) (requests (events (performOperation cl config a s))))"
proof (induction fuel arbitrary: s r s' evs)
  case 0
  then show ?case by simp
next
  case (Suc fuel)
  obtain ro s1 ev1 where op: "performOperation cl config a s = (ro, s1, ev1)"
    by (cases "performOperation cl config a s") auto
  have n1: "naps ev1 = []"
    using naps_performOperation[of cl config a s] op by (simp add: events_def)
  show ?case
  proof (cases ro)
    case (Some err)
    with Suc.prems op have "r = Some err" "evs = ev1" by auto
    with op Some n1 show ?thesis
      by (intro exI[of _ 0] exI[of _ err]) (simp add: events_def)
  next
    case None
    with Suc.prems op assms obtain out where
      rest: "pollLoop fuel cl config a s1 = Some out"
      and out: "(r, s', evs) = after (ev1 @ [Sleep (PollRate config)]) out"
      by auto
    obtain r0 s0 evs0 where o: "out = (r0, s0, evs0)" by (cases out) auto
    from out o have r: "r = r0" and e: "evs = ev1 @ [Sleep (PollRate config)] @ evs0"
      by (simp_all add: after_def)
    from Suc.IH[OF rest[unfolded o]] obtain k err where
      k: "k < fuel" "r0 = Some err"
      "\<forall>j<k. fst (performOperation cl config a (pollState cl config a s1 j)) = None"
      "fst (performOperation cl config a (pollState cl config a s1 k)) = Some err"
      "naps evs0 = replicate k (PollRate config)"
      "requests evs0 =
         concat (replicate (Suc k) (requests (events (performOperation cl config a s1))))"
      by blast
    have s1: "fst (snd (performOperation cl config a s)) = s1" using op by simp
    have all: "\<forall>j<Suc k. fst (performOperation cl config a (pollState cl config a s j)) = None"
    proof (intro allI impI)
      fix j assume "j < Suc k"
      then show "fst (performOperation cl config a (pollState cl config a s j)) = None"
        using k(3) op None s1 by (cases j) auto
    qed
    have rq: "requests evs =
        concat (replicate (Suc (Suc k)) (requests (events (performOperation cl config a s))))"
      using k(6) e op requests_read_fixed[of cl config a s1 s]
      by (simp add: requests_append events_def)
    show ?thesis
      using k(1,2,4,5) all rq r e n1 s1
      by (intro exI[of _ "Suc k"] exI[of _ err]) (simp add: naps_append)
  qed
qed

lemma pollLoop_fails_at:
  assumes "\<not> PollOnce config"
  shows "(\<forall>j<k. fst (performOperation cl config a (pollState cl config a s j)) = None) \<Longrightarrow>
    fst (performOperation cl config a (pollState cl config a s k)) = Some err \<Longrightarrow>
    k < fuel \<Longrightarrow>
    \<exists>s' evs. pollLoop fuel cl config a s = Some (Some err, s', evs)"
proof (induction k arbitrary: s fuel)
  case 0
  then obtain n where "fuel = Suc n" by (cases fuel) auto
  with 0 show ?case by (auto split: prod.splits option.splits)
next
  case (Suc k)
  then obtain n where f: "fuel = Suc n" and kn: "k < n" by (cases fuel) auto
  obtain ro s1 ev1 where op: "performOperation cl config a s = (ro, s1, ev1)"
    by (cases "performOperation cl config a s") auto
  from Suc.prems(1) have "fst (performOperation cl config a (pollState cl config a s 0)) = None"
    by blast
  with op have ro: "ro = None" by simp
  have "\<forall>j<k. fst (performOperation cl config a (pollState cl config a s1 j)) = None"
  proof (intro allI impI)
    fix j assume "j < k"
    then have "Suc j < Suc k" by simp
    with Suc.prems(1)
    have "fst (performOperation cl config a (pollState cl config a s (Suc j))) = None"
      by blast
    then show "fst (performOperation cl config a (pollState cl config a s1 j)) = None"
      using op by simp
  qed
  moreover have "fst (performOperation cl config a (pollState cl config a s1 k)) = Some err"
    using Suc.prems(2) op by simp
  ultimately obtain s' evs where "pollLoop n cl config a s1 = Some (Some err, s', evs)"
    using Suc.IH kn by blast
  then show ?case using f op ro assms by (simp add: after_def)
qed

lemma addresses_pollLoop:
  "pollLoop fuel cl config a s = Some out \<Longrightarrow>
   list_all (\<lambda>c. uint (address c) = a mod 2 ^ 16) (requests (events out))"
proof (induction fuel arbitrary: s out)
  case 0
  then show ?case by simp
next
  case (Suc fuel)
  obtain ro s1 ev1 where op: "performOperation cl config a s = (ro, s1, ev1)"
    by (cases "performOperation cl config a s") auto
  have here: "list_all (\<lambda>c. uint (address c) = a mod 2 ^ 16) (requests ev1)"
    using addresses_performOperation[of a cl config s] op by (simp add: events_def)
  show ?case
  proof (cases "ro = None \<and> \<not> PollOnce config")
    case False
    with Suc.prems have "events out = ev1"
      by (auto simp add: op events_def split: option.splits if_splits)
    with here show ?thesis by simp
  next
    case True
    with Suc.prems op obtain out0 where
      rest: "pollLoop fuel cl config a s1 = Some out0"
      and out: "out = after (ev1 @ [Sleep (PollRate config)]) out0"
      by auto
    from Suc.IH[OF rest] here out show ?thesis
      by (simp add: events_after requests_append)
  qed
qed

lemma addresses_execute:
  assumes "\<not> ZeroBased config" "execute lib cl fuel config s = Some out"
  shows "list_all (\<lambda>c. uint (address c) = StartRef config mod 2 ^ 16) (requests (events out))"
proof (cases "WriteValues config = []")
  case True
  with assms obtain out0 where
    p: "pollLoop fuel cl config (StartRef config) s = Some out0"
    and o: "out = after (shown config) out0"
    by (auto simp add: execute_unfold startAddress_def)
  from addresses_pollLoop[OF p] o show ?thesis
    by (simp add: events_after requests_append requests_shown)
next
  case False
  with assms have "out = after (shown config)
      (performWriteOperation lib cl config (StartRef config) s)"
    by (auto simp add: execute_unfold startAddress_def)
  with addresses_performWriteOperation[of "StartRef config" lib cl config s] show ?thesis
    by (simp add: events_after requests_append requests_shown)
qed

text \<open>Writes of wide values.\<close>

lemma odd_wide_write:
  assumes "DataType config = ''4:int'' \<or> DataType config = ''4:float''"
    and "odd (length (WriteValues config))"
  shows "performWriteOperation lib cl config a s =
     (Some (if DataType config = ''4:int'' then ''32-bit integers require even number of values''
            else ''32-bit floats require even number of values''), s, [])"
  using assms
  by (auto simp add: performWriteOperation_def writeHoldingRegisters_def odd_iff_mod_2_eq_one)

lemma even_int_write:
  assumes "DataType config = ''4:int''" "even (length (WriteValues config))"
    and "WriteValues config \<noteq> []"
    and "fst (WriteUint32s cl s (word_of_int a) (pairValues lib config)) = None"
  shows "fst (performWriteOperation lib cl config a s) = None
    \<and> length (wideEchoes (events (performWriteOperation lib cl config a s)))
        = length (WriteValues config) div 2
    \<and> requests (events (performWriteOperation lib cl config a s))
        = [WriteUint32sCall (word_of_int a) (pairValues lib config)]"
  using assms
  by (auto simp add: performWriteOperation_def writeHoldingRegisters_def Let_def events_def
      wideEchoes_int length_pairValues requests_prints split: prod.splits option.splits)

lemma even_float_write:
  assumes "DataType config = ''4:float''" "even (length (WriteValues config))"
    and "WriteValues config \<noteq> []"
    and "fst (WriteFloat32s cl s (word_of_int a) (pairValues lib config)) = None"
  shows "fst (performWriteOperation lib cl config a s) = None
    \<and> length (wideEchoes (events (performWriteOperation lib cl config a s)))
        = length (WriteValues config) div 2
    \<and> requests (events (performWriteOperation lib cl config a s))
        = [WriteFloat32sCall (word_of_int a) (pairValues lib config)]"
  using assms
  by (auto simp add: performWriteOperation_def writeHoldingRegisters_def Let_def events_def
      wideEchoes_float length_pairValues requests_prints split: prod.splits option.splits)

lemma successful_write_sends_one:
  assumes "WriteValues config \<noteq> []" "DataType config \<noteq> ''4:hex''"
    and "fst (performWriteOperation lib cl config a s) = None"
  shows "length (requests (events (performWriteOperation lib cl config a s))) = 1"
  using assms
  by (auto simp add: performWriteOperation_def events_def writeCoils_def
      writeHoldingRegisters_def Let_def requests_prints
      requests_bitLines split: prod.splits option.splits if_splits)

lemma supported_read_sends_one:
  assumes "DataType config \<in> set [''0'', ''1'', ''3'', ''3:hex'', ''3:int'', ''3:float'',
      ''4'', ''4:hex'', ''4:int'', ''4:float'']"
  shows "length (requests (events (performOperation cl config a s))) = 1"
  using assms by (auto simp add: requests_performOperation)

lemma validate_odd_count:
  assumes "validateConfig config = None" "0 \<le> m" "m \<le> 62"
  shows "validateConfig (config\<lparr>DataType := t, Count := 2 * m + 1\<rparr>) = None"
  using assms by (simp add: validateConfig_None)

subsection \<open>Binding of the positional target\<close>

text \<open>
  Claim C1. The first bare token should become \<open>Host\<close> under every network-style mode
  (tcp, tls, udp, rtuovertcp, rtuoverudp) and \<open>Device\<close> under rtu. \<^verbatim>\<open>parseArgs\<close> compares
  \<open>Mode\<close> with \<^verbatim>\<open>"tcp"\<close> only: after \<^verbatim>\<open>-m tls\<close> or \<^verbatim>\<open>-m udp\<close> the target lands in
  \<open>Device\<close> and \<open>Host\<close> stays empty, whatever the library does, while \<^verbatim>\<open>setupClient\<close>
  builds the endpoint of these modes from \<open>Host\<close> and so gets an empty host name.
\<close>

theorem network_target_bound_to_Device:
  "parseArgs lib 3 [''-m'', ''tls'', ''192.168.1.100'']
     = Some (Ok (defaultConfig\<lparr>Mode := ''tls'', Device := ''192.168.1.100''\<rparr>))
   \<and> parseArgs lib 3 [''-m'', ''udp'', ''192.168.1.100'']
     = Some (Ok (defaultConfig\<lparr>Mode := ''udp'', Device := ''192.168.1.100''\<rparr>))
   \<and> Host (defaultConfig\<lparr>Mode := ''tls'', Device := ''192.168.1.100''\<rparr> :: 'f Config) = ''''
   \<and> setupClient (defaultConfig\<lparr>Mode := ''tls'', Device := ''192.168.1.100''\<rparr> :: 'f Config)
     = Inr (HostPort ''tls'' '''' 502)"
  by (simp add: parseArgs_def numeral_3_eq_3 parseStep_def parseFinish_def validateConfig_def
      defaultConfig_def HasPrefixDash_def Millisecond_def Second_def setupClient_def)

subsection \<open>Wide values\<close>

text \<open>
  Claim C2. A pair of 16-bit words joined into a 32-bit value under a word order should
  come back as the same pair, and as the same 32-bit value, under that order. Under the
  big-endian order, the only one the command line can select, the program does not do
  that. The write path of \<^verbatim>\<open>writeHoldingRegisters\<close> joins the pair \<open>(hi, lo)\<close> to
  \<^verbatim>\<open>hi<<16 | lo\<close> and \<^verbatim>\<open>printRegisters\<close> takes the first register for the high half, but
  \<^verbatim>\<open>connect\<close> tells the library to send the low word first, whatever \<open>BigEndian\<close> is. The
  value is stored as the pair \<open>(lo, hi)\<close> and read back with its halves exchanged: the
  run \<^verbatim>\<open>-t 4:int host 1 2\<close> writes 65538, the registers hold 2 and 1, and the run
  \<^verbatim>\<open>-t 4:int -c 2 -1 host\<close> shows 131073.
\<close>

theorem wide_value_read_back_swapped:
  "connect None (config :: 'f Config)
     = Inr \<lparr> unitId = word_of_int (SlaveID config),
             byteOrder = (if BigEndian config then BIG_ENDIAN else LITTLE_ENDIAN),
             wordOrder = LOW_WORD_FIRST \<rparr>
   \<and> splitWide LOW_WORD_FIRST (wideOfValues True (ucast hi) (ucast lo)) = [lo, hi]
   \<and> wideOfRegisters True lo hi = wideOfValues True (ucast lo) (ucast hi)
   \<and> parseArgs sampleLib 4 [''-t'', ''4:int'', ''192.168.1.100'', ''1'', ''2'']
     = Some (Ok (defaultConfig\<lparr>DataType := ''4:int'', Host := ''192.168.1.100'',
                  WriteValues := [1, 2]\<rparr>))
   \<and> connect None (defaultConfig\<lparr>DataType := ''4:int'', Host := ''192.168.1.100'',
                  WriteValues := [1, 2]\<rparr> :: int Config)
     = Inr \<lparr> unitId = 1, byteOrder = BIG_ENDIAN, wordOrder = LOW_WORD_FIRST \<rparr>
   \<and> execute sampleLib
        (bankClient \<lparr> unitId = 1, byteOrder = BIG_ENDIAN, wordOrder = LOW_WORD_FIRST \<rparr>) 0
        (defaultConfig\<lparr>DataType := ''4:int'', Host := ''192.168.1.100'',
                  WriteValues := [1, 2]\<rparr>) [0, 0, 0, 0]
     = Some (None, [0, 2, 1, 0],
         [Call (WriteUint32sCall 1 [65538]), Print (Wrote 1 ''32-bit integer'' 1),
          Print (EchoInt32 1 65538)])
   \<and> parseArgs sampleLib 6 [''-t'', ''4:int'', ''-c'', ''2'', ''-1'', ''192.168.1.100'']
     = Some (Ok (defaultConfig\<lparr>DataType := ''4:int'', Count := 2, PollOnce := True,
                  Host := ''192.168.1.100''\<rparr>))
   \<and> execute sampleLib
        (bankClient \<lparr> unitId = 1, byteOrder = BIG_ENDIAN, wordOrder = LOW_WORD_FIRST \<rparr>) 1
        (defaultConfig\<lparr>DataType := ''4:int'', Count := 2, PollOnce := True,
                  Host := ''192.168.1.100''\<rparr>) [0, 2, 1, 0]
     = Some (None, [0, 2, 1, 0],
         [Call (ReadRegistersCall 1 2 HOLDING_REGISTER),
          Print (Heading ''Holding Registers'' 1 2),
          Print (Annotated 1 2 (AsInt32 131073)), Print (Annotated 2 1 Plain)])"
proof -
  have settings: "connect None config
     = Inr \<lparr> unitId = word_of_int (SlaveID config),
             byteOrder = (if BigEndian config then BIG_ENDIAN else LITTLE_ENDIAN),
             wordOrder = LOW_WORD_FIRST \<rparr>"
    by (simp add: connect_def)
  have stored: "splitWide LOW_WORD_FIRST (wideOfValues True (ucast hi) (ucast lo)) = [lo, hi]"
    unfolding splitWide_def wideOfValues_def
    by (simp only: if_True WordOrder.case split_high split_low)
  have joined: "wideOfRegisters True lo hi = wideOfValues True (ucast lo) (ucast hi)"
    by (simp add: wideOfRegisters_def wideOfValues_def)
  have parsed_write: "parseArgs sampleLib 4 [''-t'', ''4:int'', ''192.168.1.100'', ''1'', ''2'']
     = Some (Ok (defaultConfig\<lparr>DataType := ''4:int'', Host := ''192.168.1.100'',
                  WriteValues := [1, 2]\<rparr>))"
    by code_simp
  have session: "connect None (defaultConfig\<lparr>DataType := ''4:int'', Host := ''192.168.1.100'',
                  WriteValues := [1, 2]\<rparr> :: int Config)
     = Inr \<lparr> unitId = 1, byteOrder = BIG_ENDIAN, wordOrder = LOW_WORD_FIRST \<rparr>"
    by (simp add: connect_def defaultConfig_def)
  have written: "execute sampleLib
        (bankClient \<lparr> unitId = 1, byteOrder = BIG_ENDIAN, wordOrder = LOW_WORD_FIRST \<rparr>) 0
        (defaultConfig\<lparr>DataType := ''4:int'', Host := ''192.168.1.100'',
                  WriteValues := [1, 2]\<rparr>) [0, 0, 0, 0]
     = Some (None, [0, 2, 1, 0],
         [Call (WriteUint32sCall 1 [65538]), Print (Wrote 1 ''32-bit integer'' 1),
          Print (EchoInt32 1 65538)])"
    by code_simp
  have parsed_read:
    "parseArgs sampleLib 6 [''-t'', ''4:int'', ''-c'', ''2'', ''-1'', ''192.168.1.100'']
     = Some (Ok (defaultConfig\<lparr>DataType := ''4:int'', Count := 2, PollOnce := True,
                  Host := ''192.168.1.100''\<rparr>))"
    by code_simp
  have shown_back: "execute sampleLib
        (bankClient \<lparr> unitId = 1, byteOrder = BIG_ENDIAN, wordOrder = LOW_WORD_FIRST \<rparr>) 1
        (defaultConfig\<lparr>DataType := ''4:int'', Count := 2, PollOnce := True,
                  Host := ''192.168.1.100''\<rparr>) [0, 2, 1, 0]
     = Some (None, [0, 2, 1, 0],
         [Call (ReadRegistersCall 1 2 HOLDING_REGISTER),
          Print (Heading ''Holding Registers'' 1 2),
          Print (Annotated 1 2 (AsInt32 131073)), Print (Annotated 2 1 Plain)])"
    by code_simp
  show ?thesis by (intro conjI; fact)
qed

subsection \<open>The separator token\<close>

text \<open>
  Claim C3. Parsing should end once the separator \<^verbatim>\<open>--\<close> is reached, with the tokens
  after it collected as write values. The \<^verbatim>\<open>break\<close> that follows the collecting loop leaves
  the \<^verbatim>\<open>switch\<close> only, not the \<^verbatim>\<open>for\<close> loop, and the index is not advanced: the next pass
  sees the separator again. When every token after the separator is numeric (or there is
  none), \<^verbatim>\<open>parseArgs\<close> is still in its loop after any number of passes.
\<close>

theorem separator_never_returns:
  "parseArgs lib fuel [''192.168.1.100'', ''--''] = None
   \<and> parseArgs sampleLib fuel [''192.168.1.100'', ''--'', ''-5''] = None"
proof (cases fuel)
  case 0
  then show ?thesis by (simp add: parseArgs_def)
next
  case (Suc n)
  have first: "parseStep l [''192.168.1.100'', ''--''] 0 defaultConfig
      = Next 1 (defaultConfig\<lparr>Host := ''192.168.1.100''\<rparr>)"
    "parseStep l [''192.168.1.100'', ''--'', ''-5''] 0 defaultConfig
      = Next 1 (defaultConfig\<lparr>Host := ''192.168.1.100''\<rparr>)" for l :: "'x stdlib"
    by (simp_all add: parseStep_def defaultConfig_def HasPrefixDash_def)
  have none: "collectValues lib [] (drop (1 + 1) [''192.168.1.100'', ''--'']) = Inr []"
    by simp
  have five: "collectValues sampleLib [] (drop (1 + 1) [''192.168.1.100'', ''--'', ''-5''])
      = Inr [- 5]"
    by (simp add: sampleLib_def sampleAtoi_def)
  have "parseLoop lib n [''192.168.1.100'', ''--''] 1
      (defaultConfig\<lparr>Host := ''192.168.1.100''\<rparr>) = None"
    by (rule parseLoop_separator[OF _ _ none]) simp_all
  moreover have "parseLoop sampleLib n [''192.168.1.100'', ''--'', ''-5''] 1
      (defaultConfig\<lparr>Host := ''192.168.1.100''\<rparr>) = None"
    by (rule parseLoop_separator[OF _ _ five]) simp_all
  ultimately show ?thesis by (simp add: parseArgs_def Suc first)
qed

subsection \<open>Validation\<close>

text \<open>
  Claim C8. \<^verbatim>\<open>validateConfig\<close> accepts a configuration exactly when Count is in [1,125],
  SlaveID in [0,255], Baudrate in [1200,921600], Databits 7 or 8, Stopbits 1 or 2, Parity
  one of none, even, odd, PollRate at least 10 ms and Timeout in [10 ms, 10 s]; otherwise
  it returns the message of the first constraint, in the spec's order, that is broken,
  and the message names the legal range. Around an accepted configuration, Count 0 and 126
  and Baudrate 1199 and 921601 are refused, Count 1 and 125 and Baudrate 1200 and 921600
  are accepted.
\<close>

theorem validateConfig_accepts_iff:
  "(validateConfig c = None) =
     (1 \<le> Count c \<and> Count c \<le> 125 \<and> 0 \<le> SlaveID c \<and> SlaveID c \<le> 255
      \<and> 1200 \<le> Baudrate c \<and> Baudrate c \<le> 921600
      \<and> Databits c \<in> {7, 8} \<and> Stopbits c \<in> {1, 2}
      \<and> Parity c \<in> {''none'', ''even'', ''odd''}
      \<and> 10 * Millisecond \<le> PollRate c
      \<and> 10 * Millisecond \<le> Timeout c \<and> Timeout c \<le> 10 * Second)
   \<and> validateConfig c = firstViolation c
   \<and> (validateConfig c = None \<longrightarrow>
        validateConfig (c\<lparr>Count := 0\<rparr>) = Some ''count must be between 1 and 125''
      \<and> validateConfig (c\<lparr>Count := 126\<rparr>) = Some ''count must be between 1 and 125''
      \<and> validateConfig (c\<lparr>Count := 1\<rparr>) = None
      \<and> validateConfig (c\<lparr>Count := 125\<rparr>) = None
      \<and> validateConfig (c\<lparr>Baudrate := 1199\<rparr>) = Some ''baudrate must be between 1200 and 921600''
      \<and> validateConfig (c\<lparr>Baudrate := 921601\<rparr>)
          = Some ''baudrate must be between 1200 and 921600''
      \<and> validateConfig (c\<lparr>Baudrate := 1200\<rparr>) = None
      \<and> validateConfig (c\<lparr>Baudrate := 921600\<rparr>) = None)"
proof (intro conjI impI)
  show "(validateConfig c = None) =
     (1 \<le> Count c \<and> Count c \<le> 125 \<and> 0 \<le> SlaveID c \<and> SlaveID c \<le> 255
      \<and> 1200 \<le> Baudrate c \<and> Baudrate c \<le> 921600
      \<and> Databits c \<in> {7, 8} \<and> Stopbits c \<in> {1, 2}
      \<and> Parity c \<in> {''none'', ''even'', ''odd''}
      \<and> 10 * Millisecond \<le> PollRate c
      \<and> 10 * Millisecond \<le> Timeout c \<and> Timeout c \<le> 10 * Second)"
    by (simp add: validateConfig_None)
  show "validateConfig c = firstViolation c" by (rule validateConfig_firstViolation)
next
  assume ok: "validateConfig c = None"
  then show "validateConfig (c\<lparr>Count := 1\<rparr>) = None" "validateConfig (c\<lparr>Count := 125\<rparr>) = None"
    "validateConfig (c\<lparr>Baudrate := 1200\<rparr>) = None"
    "validateConfig (c\<lparr>Baudrate := 921600\<rparr>) = None"
    by (simp_all add: validateConfig_None)
  show "validateConfig (c\<lparr>Count := 0\<rparr>) = Some ''count must be between 1 and 125''"
    "validateConfig (c\<lparr>Count := 126\<rparr>) = Some ''count must be between 1 and 125''"
    by (simp_all add: validateConfig_def)
  from ok have "1 \<le> Count c" "Count c \<le> 125" "0 \<le> SlaveID c" "SlaveID c \<le> 255"
    by (simp_all add: validateConfig_None)
  then show
    "validateConfig (c\<lparr>Baudrate := 1199\<rparr>) = Some ''baudrate must be between 1200 and 921600''"
    "validateConfig (c\<lparr>Baudrate := 921601\<rparr>) = Some ''baudrate must be between 1200 and 921600''"
    by (simp_all add: validateConfig_def)
qed

theorem validateConfig_accepts_iff_witness:
  "validateConfig (defaultConfig :: int Config) = None
   \<and> validateConfig ((defaultConfig :: int Config)\<lparr>Count := 0\<rparr>)
       = Some ''count must be between 1 and 125''
   \<and> validateConfig ((defaultConfig :: int Config)\<lparr>Count := 125\<rparr>) = None
   \<and> validateConfig ((defaultConfig :: int Config)\<lparr>Baudrate := 921601\<rparr>)
       = Some ''baudrate must be between 1200 and 921600''
   \<and> validateConfig ((defaultConfig :: int Config)\<lparr>Baudrate := 1200\<rparr>) = None"
proof -
  have ok: "validateConfig (defaultConfig :: int Config) = None"
    by (simp add: validateConfig_def defaultConfig_def Millisecond_def Second_def)
  from validateConfig_accepts_iff[of "defaultConfig :: int Config"] ok show ?thesis
    by blast
qed

subsection \<open>Word order from the command line\<close>

text \<open>
  Claim C9. Every configuration that \<^verbatim>\<open>parseArgs\<close> returns has \<open>BigEndian\<close> set: no
  option clears it. Both joining functions therefore always take their big-endian branch
  on a configuration that comes from the command line.
\<close>

theorem parsed_config_is_big_endian:
  "parseArgs lib fuel args = Some (Ok config) \<Longrightarrow>
   BigEndian config
   \<and> wideOfValues (BigEndian config) high low = push_bit 16 high OR low
   \<and> wideOfRegisters (BigEndian config) r0 r1 = push_bit 16 (ucast r0) OR ucast r1"
proof -
  assume "parseArgs lib fuel args = Some (Ok config)"
  then have "BigEndian config"
    unfolding parseArgs_def by (rule parseLoop_BigEndian) (simp add: defaultConfig_def)
  then show ?thesis by (simp add: wideOfValues_def wideOfRegisters_def)
qed

theorem parsed_config_is_big_endian_witness:
  "parseArgs sampleLib 3 [''-B'', ''192.168.1.100'']
     = Some (Ok (defaultConfig\<lparr>BigEndian := True, Host := ''192.168.1.100''\<rparr>))
   \<and> BigEndian (defaultConfig\<lparr>BigEndian := True, Host := ''192.168.1.100''\<rparr> :: int Config)
   \<and> wideOfValues
        (BigEndian (defaultConfig\<lparr>BigEndian := True, Host := ''192.168.1.100''\<rparr> :: int Config))
        1 2 = 65538"
proof -
  have p: "parseArgs sampleLib 3 [''-B'', ''192.168.1.100'']
     = Some (Ok (defaultConfig\<lparr>BigEndian := True, Host := ''192.168.1.100''\<rparr>))"
    by code_simp
  from parsed_config_is_big_endian[OF p, of 1 2] p show ?thesis by simp
qed

subsection \<open>Parity of wide writes and of wide reads\<close>

text \<open>
  Claim C4, as stated, also says that validation rejects a wide read type with an odd
  Count. It does not: \<^verbatim>\<open>validateConfig\<close> looks neither at the data type nor at the parity of
  Count, and \<^verbatim>\<open>parseArgs\<close> accepts \<^verbatim>\<open>-t 3:int -c 3\<close>.
\<close>

theorem odd_wide_count_accepted:
  "parseArgs sampleLib 6 [''-t'', ''3:int'', ''-c'', ''3'', ''192.168.1.100'']
     = Some (Ok (defaultConfig\<lparr>DataType := ''3:int'', Count := 3, Host := ''192.168.1.100''\<rparr>))
   \<and> validateConfig
        (defaultConfig\<lparr>DataType := ''3:int'', Count := 3, Host := ''192.168.1.100''\<rparr> :: int Config)
     = None"
proof -
  have "parseArgs sampleLib 6 [''-t'', ''3:int'', ''-c'', ''3'', ''192.168.1.100'']
     = Some (Ok (defaultConfig\<lparr>DataType := ''3:int'', Count := 3, Host := ''192.168.1.100''\<rparr>))"
    by code_simp
  moreover have "validateConfig
      (defaultConfig\<lparr>DataType := ''3:int'', Count := 3, Host := ''192.168.1.100''\<rparr> :: int Config)
     = None"
    by (simp add: validateConfig_def defaultConfig_def Millisecond_def Second_def)
  ultimately show ?thesis by simp
qed

text \<open>
  Claim C4, amended. For the data types \<^verbatim>\<open>4:int\<close> and \<^verbatim>\<open>4:float\<close>, a write with an odd
  number of write values fails with the even-count error before any request is sent; a
  write with an even, non-zero number \<open>n\<close> of write values that the Modbus client accepts
  succeeds, sends one request carrying the \<open>n div 2\<close> joined values and prints \<open>n div 2\<close>
  echo lines. Validation does not depend on the data type or on the parity of Count: a
  configuration that it accepts is still accepted with any data type and any odd Count
  from 1 to 125.
\<close>

theorem wide_write_needs_even_count:
  "((DataType config = ''4:int'' \<or> DataType config = ''4:float'')
      \<and> odd (length (WriteValues config)) \<longrightarrow>
      performWriteOperation lib cl config a s =
        (Some (if DataType config = ''4:int''
               then ''32-bit integers require even number of values''
               else ''32-bit floats require even number of values''), s, []))
   \<and> (DataType config = ''4:int'' \<and> even (length (WriteValues config))
      \<and> WriteValues config \<noteq> []
      \<and> fst (WriteUint32s cl s (word_of_int a) (pairValues lib config)) = None \<longrightarrow>
      fst (performWriteOperation lib cl config a s) = None
      \<and> length (wideEchoes (events (performWriteOperation lib cl config a s)))
          = length (WriteValues config) div 2
      \<and> requests (events (performWriteOperation lib cl config a s))
          = [WriteUint32sCall (word_of_int a) (pairValues lib config)])
   \<and> (DataType config = ''4:float'' \<and> even (length (WriteValues config))
      \<and> WriteValues config \<noteq> []
      \<and> fst (WriteFloat32s cl s (word_of_int a) (pairValues lib config)) = None \<longrightarrow>
      fst (performWriteOperation lib cl config a s) = None
      \<and> length (wideEchoes (events (performWriteOperation lib cl config a s)))
          = length (WriteValues config) div 2
      \<and> requests (events (performWriteOperation lib cl config a s))
          = [WriteFloat32sCall (word_of_int a) (pairValues lib config)])
   \<and> (validateConfig config = None \<and> 0 \<le> m \<and> m \<le> 62 \<longrightarrow>
      validateConfig (config\<lparr>DataType := t, Count := 2 * m + 1\<rparr>) = None)"
  using odd_wide_write[of config lib cl a s] even_int_write[of config cl s a lib]
    even_float_write[of config cl s a lib] validate_odd_count[of config m t]
  by blast

theorem wide_write_needs_even_count_witness:
  "odd (length (WriteValues
       (defaultConfig\<lparr>DataType := ''4:int'', WriteValues := [1, 2, 3]\<rparr> :: int Config)))
   \<and> performWriteOperation sampleLib (stubClient 0)
        (defaultConfig\<lparr>DataType := ''4:int'', WriteValues := [1, 2, 3]\<rparr>) 1 0
       = (Some ''32-bit integers require even number of values'', 0, [])
   \<and> even (length (WriteValues
       (defaultConfig\<lparr>DataType := ''4:int'', WriteValues := [1, 2, 3, 4]\<rparr> :: int Config)))
   \<and> length (wideEchoes (events (performWriteOperation sampleLib (stubClient 0)
        (defaultConfig\<lparr>DataType := ''4:int'', WriteValues := [1, 2, 3, 4]\<rparr>) 1 0))) = 2
   \<and> length (wideEchoes (events (performWriteOperation sampleLib (stubClient 0)
        (defaultConfig\<lparr>DataType := ''4:float'', WriteValues := [16456, 62915]\<rparr>) 1 0))) = 1
   \<and> validateConfig ((defaultConfig :: int Config)\<lparr>DataType := ''3:int'', Count := 3\<rparr>) = None"
proof -
  let ?odd = "defaultConfig\<lparr>DataType := ''4:int'', WriteValues := [1, 2, 3]\<rparr> :: int Config"
  let ?int = "defaultConfig\<lparr>DataType := ''4:int'', WriteValues := [1, 2, 3, 4]\<rparr> :: int Config"
  let ?float = "defaultConfig\<lparr>DataType := ''4:float'', WriteValues := [16456, 62915]\<rparr>
    :: int Config"
  have h1: "(DataType ?odd = ''4:int'' \<or> DataType ?odd = ''4:float'')
      \<and> odd (length (WriteValues ?odd))"
    by simp
  have h2: "DataType ?int = ''4:int'' \<and> even (length (WriteValues ?int))
      \<and> WriteValues ?int \<noteq> []
      \<and> fst (WriteUint32s (stubClient 0) 0 (word_of_int 1) (pairValues sampleLib ?int)) = None"
    by (simp add: stubClient_def)
  have h3: "DataType ?float = ''4:float'' \<and> even (length (WriteValues ?float))
      \<and> WriteValues ?float \<noteq> []
      \<and> fst (WriteFloat32s (stubClient 0) 0 (word_of_int 1) (pairValues sampleLib ?float)) = None"
    by (simp add: stubClient_def)
  have h4: "validateConfig (defaultConfig :: int Config) = None \<and> (0::int) \<le> 1 \<and> (1::int) \<le> 62"
    by (simp add: validateConfig_def defaultConfig_def Millisecond_def Second_def)
  have c1: "performWriteOperation sampleLib (stubClient 0) ?odd 1 0
       = (Some ''32-bit integers require even number of values'', 0, [])"
    using h1 wide_write_needs_even_count[where config = ?odd and lib = sampleLib
        and cl = "stubClient 0" and a = 1 and s = 0]
    by simp
  have c2: "length (wideEchoes (events (performWriteOperation sampleLib (stubClient 0) ?int 1 0)))
      = 2"
    using h2 wide_write_needs_even_count[where config = ?int and lib = sampleLib
        and cl = "stubClient 0" and a = 1 and s = 0]
    by simp
  have c3: "length (wideEchoes (events (performWriteOperation sampleLib (stubClient 0) ?float 1 0)))
      = 1"
    using h3 wide_write_needs_even_count[where config = ?float and lib = sampleLib
        and cl = "stubClient 0" and a = 1 and s = 0]
    by simp
  have c4: "validateConfig ((defaultConfig :: int Config)\<lparr>DataType := ''3:int'', Count := 3\<rparr>)
      = None"
    using h4 wide_write_needs_even_count[where config = "defaultConfig :: int Config"
        and lib = sampleLib and cl = "stubClient 0" and a = 1 and s = 0
        and m = 1 and t = "''3:int''"]
    by simp
  from h1 h2 c1 c2 c3 c4 show ?thesis by simp
qed

subsection \<open>Writable data types\<close>

text \<open>
  Claim C5. A write that is reported successful should have sent the write request for
  all the supplied values. \<^verbatim>\<open>performWriteOperation\<close> hands the data type \<^verbatim>\<open>4:hex\<close> to
  \<^verbatim>\<open>writeHoldingRegisters\<close>, whose \<^verbatim>\<open>switch\<close> has cases for \<^verbatim>\<open>4\<close>, \<^verbatim>\<open>4:int\<close> and
  \<^verbatim>\<open>4:float\<close> only: with \<^verbatim>\<open>-t 4:hex\<close> the run returns success, sends no request and prints
  nothing, for every library, every Modbus client and every value.
\<close>

theorem hex_write_is_silent:
  "parseArgs sampleLib 5 [''-t'', ''4:hex'', ''192.168.1.100'', ''7'']
     = Some (Ok (defaultConfig\<lparr>DataType := ''4:hex'', Host := ''192.168.1.100'',
                  WriteValues := [7]\<rparr>))
   \<and> execute lib cl fuel
        (defaultConfig\<lparr>DataType := ''4:hex'', Host := ''192.168.1.100'', WriteValues := [v]\<rparr>) s
     = Some (None, s, [])"
proof -
  have "parseArgs sampleLib 5 [''-t'', ''4:hex'', ''192.168.1.100'', ''7'']
     = Some (Ok (defaultConfig\<lparr>DataType := ''4:hex'', Host := ''192.168.1.100'',
                  WriteValues := [7]\<rparr>))"
    by code_simp
  moreover have "execute lib cl fuel
        (defaultConfig\<lparr>DataType := ''4:hex'', Host := ''192.168.1.100'', WriteValues := [v]\<rparr>) s
     = Some (None, s, [])"
    by (simp add: execute_def defaultConfig_def performWriteOperation_def
        writeHoldingRegisters_def after_def)
  ultimately show ?thesis by simp
qed

subsection \<open>Zero-based addressing\<close>

text \<open>
  Claim C6. With \<open>ZeroBased\<close> set, the start address of the run should be the configured
  \<open>StartRef\<close>. \<^verbatim>\<open>execute\<close> replaces it by 0 instead: the run does not depend on
  \<open>StartRef\<close> at all, and \<^verbatim>\<open>-0 -r 5\<close> reads the register at address 0.
\<close>

theorem zero_based_discards_StartRef:
  "execute lib cl fuel (config\<lparr>ZeroBased := True, StartRef := r\<rparr>) s
     = execute lib cl fuel (config\<lparr>ZeroBased := True, StartRef := r'\<rparr>) s
   \<and> parseArgs sampleLib 6 [''-0'', ''-r'', ''5'', ''-1'', ''192.168.1.100'']
     = Some (Ok (defaultConfig\<lparr>ZeroBased := True, StartRef := 5, PollOnce := True,
                  Host := ''192.168.1.100''\<rparr>))
   \<and> execute sampleLib (stubClient 1) 1
        (defaultConfig\<lparr>ZeroBased := True, StartRef := 5, PollOnce := True,
                  Host := ''192.168.1.100''\<rparr>) 0
     = Some (None, 1, [Call (ReadRegistersCall 0 1 HOLDING_REGISTER),
          Print (Heading ''Holding Registers'' 0 0), Print (Annotated 0 0 Plain)])"
proof -
  have "execute lib cl fuel (config\<lparr>ZeroBased := True, StartRef := r\<rparr>) s
     = execute lib cl fuel (config\<lparr>ZeroBased := True, StartRef := r'\<rparr>) s"
    by (simp add: execute_ZeroBased_StartRef)
  moreover have "parseArgs sampleLib 6 [''-0'', ''-r'', ''5'', ''-1'', ''192.168.1.100'']
     = Some (Ok (defaultConfig\<lparr>ZeroBased := True, StartRef := 5, PollOnce := True,
                  Host := ''192.168.1.100''\<rparr>))"
    by code_simp
  moreover have "execute sampleLib (stubClient 1) 1
        (defaultConfig\<lparr>ZeroBased := True, StartRef := 5, PollOnce := True,
                  Host := ''192.168.1.100''\<rparr>) 0
     = Some (None, 1, [Call (ReadRegistersCall 0 1 HOLDING_REGISTER),
          Print (Heading ''Holding Registers'' 0 0), Print (Annotated 0 0 Plain)])"
    by code_simp
  ultimately show ?thesis by simp
qed

subsection \<open>Narrowing of the start address\<close>

text \<open>
  Claim C10. \<open>StartRef\<close> is never range-checked, and the start address of every read and
  write request should be \<open>StartRef\<close> narrowed to 16 bits, that is, reduced modulo
  \<open>2 ^ 16\<close>. Validation does accept every \<open>StartRef\<close> (lemma
  \<open>validateConfig_StartRef\<close>), and a run without \<open>ZeroBased\<close> does send the narrowed
  \<open>StartRef\<close> (lemma \<open>addresses_execute\<close>). With \<open>ZeroBased\<close>
  the run drops \<open>StartRef\<close>, the defect of claim C6: \<^verbatim>\<open>-0 -r 70000\<close> is accepted, and
  the read as well as the write goes to address 0, while 70000 modulo \<open>2 ^ 16\<close> is 4464.
\<close>

theorem zero_based_request_is_not_StartRef:
  "parseArgs sampleLib 6 [''-0'', ''-r'', ''70000'', ''-1'', ''192.168.1.100'']
     = Some (Ok (defaultConfig\<lparr>ZeroBased := True, StartRef := 70000, PollOnce := True,
                  Host := ''192.168.1.100''\<rparr>))
   \<and> StartRef (defaultConfig\<lparr>ZeroBased := True, StartRef := 70000, PollOnce := True,
                  Host := ''192.168.1.100''\<rparr> :: int Config) mod 2 ^ 16 = 4464
   \<and> execute sampleLib (stubClient 1) 1
        (defaultConfig\<lparr>ZeroBased := True, StartRef := 70000, PollOnce := True,
                  Host := ''192.168.1.100''\<rparr>) 0
     = Some (None, 1, [Call (ReadRegistersCall 0 1 HOLDING_REGISTER),
          Print (Heading ''Holding Registers'' 0 0), Print (Annotated 0 0 Plain)])
   \<and> uint (address (ReadRegistersCall 0 1 HOLDING_REGISTER)) = 0
   \<and> parseArgs sampleLib 6 [''-0'', ''-r'', ''70000'', ''192.168.1.100'', ''7'']
     = Some (Ok (defaultConfig\<lparr>ZeroBased := True, StartRef := 70000,
                  Host := ''192.168.1.100'', WriteValues := [7]\<rparr>))
   \<and> execute sampleLib (stubClient 1) 0
        (defaultConfig\<lparr>ZeroBased := True, StartRef := 70000,
                  Host := ''192.168.1.100'', WriteValues := [7]\<rparr>) 0
     = Some (None, 1, [Call (WriteRegistersCall 0 [7]),
          Print (Wrote 1 ''16-bit register'' 0), Print (EchoReg 0 7)])
   \<and> uint (address (WriteRegistersCall 0 [7])) = 0"
proof -
  have parsed_read:
    "parseArgs sampleLib 6 [''-0'', ''-r'', ''70000'', ''-1'', ''192.168.1.100'']
     = Some (Ok (defaultConfig\<lparr>ZeroBased := True, StartRef := 70000, PollOnce := True,
                  Host := ''192.168.1.100''\<rparr>))"
    by code_simp
  have narrowed: "StartRef (defaultConfig\<lparr>ZeroBased := True, StartRef := 70000,
      PollOnce := True, Host := ''192.168.1.100''\<rparr> :: int Config) mod 2 ^ 16 = 4464"
    by simp
  have read_run: "execute sampleLib (stubClient 1) 1
        (defaultConfig\<lparr>ZeroBased := True, StartRef := 70000, PollOnce := True,
                  Host := ''192.168.1.100''\<rparr>) 0
     = Some (None, 1, [Call (ReadRegistersCall 0 1 HOLDING_REGISTER),
          Print (Heading ''Holding Registers'' 0 0), Print (Annotated 0 0 Plain)])"
    by code_simp
  have read_address: "uint (address (ReadRegistersCall 0 1 HOLDING_REGISTER)) = 0"
    by simp
  have parsed_write:
    "parseArgs sampleLib 6 [''-0'', ''-r'', ''70000'', ''192.168.1.100'', ''7'']
     = Some (Ok (defaultConfig\<lparr>ZeroBased := True, StartRef := 70000,
                  Host := ''192.168.1.100'', WriteValues := [7]\<rparr>))"
    by code_simp
  have write_run: "execute sampleLib (stubClient 1) 0
        (defaultConfig\<lparr>ZeroBased := True, StartRef := 70000,
                  Host := ''192.168.1.100'', WriteValues := [7]\<rparr>) 0
     = Some (None, 1, [Call (WriteRegistersCall 0 [7]),
          Print (Wrote 1 ''16-bit register'' 0), Print (EchoReg 0 7)])"
    by code_simp
  have write_address: "uint (address (WriteRegistersCall 0 [7])) = 0"
    by simp
  show ?thesis by (intro conjI; fact)
qed

subsection \<open>One write, one read, or polling until a read fails\<close>

text \<open>
  Claim C7. A run with write values is the one write operation, whatever \<open>PollOnce\<close> and
  \<open>PollRate\<close> are and however many passes are allowed: it never sleeps and sends at most
  one request. A read run with \<open>PollOnce\<close> is the one read operation: it returns what
  that read returns, success when the read succeeds. A read run without \<open>PollOnce\<close> that
  returns has returned the error of a failed read, after \<open>k\<close> reads that succeeded, each
  followed by a sleep of \<open>PollRate\<close>, and \<open>k + 1\<close> reads in all; and it does return that
  error as soon as a read fails. So it returns only when a read fails.
\<close>

theorem write_once_read_once_or_poll:
  "(WriteValues config \<noteq> [] \<longrightarrow>
      execute lib cl fuel config s
        = Some (after (shown config)
            (performWriteOperation lib cl config (startAddress config) s))
      \<and> naps (events (performWriteOperation lib cl config (startAddress config) s)) = []
      \<and> length (requests (events (performWriteOperation lib cl config (startAddress config) s)))
          \<le> 1
      \<and> (DataType config \<noteq> ''4:hex''
          \<and> fst (performWriteOperation lib cl config (startAddress config) s) = None \<longrightarrow>
         length (requests (events (performWriteOperation lib cl config (startAddress config) s)))
          = 1))
   \<and> (WriteValues config = [] \<and> PollOnce config \<longrightarrow>
      execute lib cl (Suc fuel) config s
        = Some (after (shown config) (performOperation cl config (startAddress config) s))
      \<and> naps (events (performOperation cl config (startAddress config) s)) = []
      \<and> length (requests (events (performOperation cl config (startAddress config) s))) \<le> 1
      \<and> (DataType config \<in> set [''0'', ''1'', ''3'', ''3:hex'', ''3:int'', ''3:float'',
            ''4'', ''4:hex'', ''4:int'', ''4:float''] \<longrightarrow>
         length (requests (events (performOperation cl config (startAddress config) s))) = 1))
   \<and> (WriteValues config = [] \<and> \<not> PollOnce config
        \<and> execute lib cl fuel config s = Some (r, s', evs) \<longrightarrow>
      (\<exists>k err. k < fuel \<and> r = Some err
        \<and> (\<forall>j<k. fst (performOperation cl config (startAddress config)
                       (pollState cl config (startAddress config) s j)) = None)
        \<and> fst (performOperation cl config (startAddress config)
                 (pollState cl config (startAddress config) s k)) = Some err
        \<and> naps evs = replicate k (PollRate config)
        \<and> requests evs = concat (replicate (Suc k)
             (requests (events (performOperation cl config (startAddress config) s))))))
   \<and> (WriteValues config = [] \<and> \<not> PollOnce config \<and> n < fuel
        \<and> (\<forall>j<n. fst (performOperation cl config (startAddress config)
                       (pollState cl config (startAddress config) s j)) = None)
        \<and> fst (performOperation cl config (startAddress config)
                 (pollState cl config (startAddress config) s n)) = Some e \<longrightarrow>
      (\<exists>s' evs. execute lib cl fuel config s = Some (Some e, s', evs)))"
proof (intro conjI impI)
  assume w: "WriteValues config \<noteq> []"
  then show "execute lib cl fuel config s
        = Some (after (shown config)
            (performWriteOperation lib cl config (startAddress config) s))"
    by (simp add: execute_unfold)
  show "naps (events (performWriteOperation lib cl config (startAddress config) s)) = []"
    by (rule naps_performWriteOperation)
  show "length (requests (events (performWriteOperation lib cl config (startAddress config) s)))
          \<le> 1"
    by (simp add: requests_performWriteOperation)
  assume "DataType config \<noteq> ''4:hex''
      \<and> fst (performWriteOperation lib cl config (startAddress config) s) = None"
  with w show
    "length (requests (events (performWriteOperation lib cl config (startAddress config) s))) = 1"
    by (simp add: successful_write_sends_one)
next
  assume o: "WriteValues config = [] \<and> PollOnce config"
  then show "execute lib cl (Suc fuel) config s
        = Some (after (shown config) (performOperation cl config (startAddress config) s))"
    by (simp add: execute_unfold pollLoop_once del: pollLoop.simps)
  show "naps (events (performOperation cl config (startAddress config) s)) = []"
    by (rule naps_performOperation)
  show "length (requests (events (performOperation cl config (startAddress config) s))) \<le> 1"
    by (simp add: requests_performOperation del: set_simps list.set)
  assume "DataType config \<in> set [''0'', ''1'', ''3'', ''3:hex'', ''3:int'', ''3:float'',
            ''4'', ''4:hex'', ''4:int'', ''4:float'']"
  then show "length (requests (events (performOperation cl config (startAddress config) s))) = 1"
    by (rule supported_read_sends_one)
next
  assume c: "WriteValues config = [] \<and> \<not> PollOnce config
        \<and> execute lib cl fuel config s = Some (r, s', evs)"
  then obtain out0 where
    p: "pollLoop fuel cl config (startAddress config) s = Some out0"
    and o: "(r, s', evs) = after (shown config) out0"
    by (auto simp add: execute_unfold)
  obtain r0 s0 evs0 where out0: "out0 = (r0, s0, evs0)" by (cases out0) auto
  from o out0 have r: "r = r0" and e: "evs = shown config @ evs0"
    by (simp_all add: after_def)
  from c have np: "\<not> PollOnce config" by simp
  from pollLoop_stops[OF np p[unfolded out0]] r e
  show "\<exists>k err. k < fuel \<and> r = Some err
        \<and> (\<forall>j<k. fst (performOperation cl config (startAddress config)
                       (pollState cl config (startAddress config) s j)) = None)
        \<and> fst (performOperation cl config (startAddress config)
                 (pollState cl config (startAddress config) s k)) = Some err
        \<and> naps evs = replicate k (PollRate config)
        \<and> requests evs = concat (replicate (Suc k)
             (requests (events (performOperation cl config (startAddress config) s))))"
    by (simp add: naps_append requests_append naps_shown requests_shown)
next
  assume f: "WriteValues config = [] \<and> \<not> PollOnce config \<and> n < fuel
        \<and> (\<forall>j<n. fst (performOperation cl config (startAddress config)
                       (pollState cl config (startAddress config) s j)) = None)
        \<and> fst (performOperation cl config (startAddress config)
                 (pollState cl config (startAddress config) s n)) = Some e"
  then have np: "\<not> PollOnce config" and nf: "n < fuel"
    and before: "\<forall>j<n. fst (performOperation cl config (startAddress config)
                       (pollState cl config (startAddress config) s j)) = None"
    and at: "fst (performOperation cl config (startAddress config)
                 (pollState cl config (startAddress config) s n)) = Some e"
    by simp_all
  from pollLoop_fails_at[OF np before at nf] obtain s1 evs1 where
    "pollLoop fuel cl config (startAddress config) s = Some (Some e, s1, evs1)"
    by blast
  with f show "\<exists>s' evs. execute lib cl fuel config s = Some (Some e, s', evs)"
    by (simp add: execute_unfold after_def)
qed

theorem write_once_read_once_or_poll_witness:
  "WriteValues (defaultConfig\<lparr>Host := ''h'', WriteValues := [7]\<rparr> :: int Config) \<noteq> []
   \<and> execute sampleLib (stubClient 0) 0 (defaultConfig\<lparr>Host := ''h'', WriteValues := [7]\<rparr>) 0
       = Some (None, 1, [Call (WriteRegistersCall 1 [7]),
            Print (Wrote 1 ''16-bit register'' 1), Print (EchoReg 1 7)])
   \<and> length (requests (events (performWriteOperation sampleLib (stubClient 0)
        (defaultConfig\<lparr>Host := ''h'', WriteValues := [7]\<rparr>)
        (startAddress (defaultConfig\<lparr>Host := ''h'', WriteValues := [7]\<rparr> :: int Config)) 0))) = 1
   \<and> PollOnce (defaultConfig\<lparr>Host := ''h'', PollOnce := True\<rparr> :: int Config)
   \<and> length (requests (events (performOperation (stubClient 5)
        (defaultConfig\<lparr>Host := ''h'', PollOnce := True\<rparr> :: int Config)
        (startAddress (defaultConfig\<lparr>Host := ''h'', PollOnce := True\<rparr> :: int Config)) 0))) = 1
   \<and> execute sampleLib (stubClient 5) (Suc 0) (defaultConfig\<lparr>Host := ''h'', PollOnce := True\<rparr>) 0
       = Some (None, 1, [Call (ReadRegistersCall 1 1 HOLDING_REGISTER),
            Print (Heading ''Holding Registers'' 1 1), Print (Annotated 1 0 Plain)])
   \<and> \<not> PollOnce (defaultConfig\<lparr>Host := ''h''\<rparr> :: int Config)
   \<and> execute sampleLib (stubClient 2) 5 (defaultConfig\<lparr>Host := ''h''\<rparr>) 0
       = Some (Some ''failed to read holding registers: request timed out'', 3,
           [Call (ReadRegistersCall 1 1 HOLDING_REGISTER),
            Print (Heading ''Holding Registers'' 1 1), Print (Annotated 1 0 Plain),
            Sleep 1000000000,
            Call (ReadRegistersCall 1 1 HOLDING_REGISTER),
            Print (Heading ''Holding Registers'' 1 1), Print (Annotated 1 0 Plain),
            Sleep 1000000000,
            Call (ReadRegistersCall 1 1 HOLDING_REGISTER)])
   \<and> (\<exists>k err. k < 5 \<and> Some ''failed to read holding registers: request timed out'' = Some err
        \<and> naps [Call (ReadRegistersCall 1 1 HOLDING_REGISTER),
            Print (Heading ''Holding Registers'' 1 1), Print (Annotated 1 0 Plain),
            Sleep 1000000000,
            Call (ReadRegistersCall 1 1 HOLDING_REGISTER),
            Print (Heading ''Holding Registers'' 1 1), Print (Annotated 1 0 Plain),
            Sleep 1000000000,
            Call (ReadRegistersCall 1 1 HOLDING_REGISTER)]
          = replicate k (PollRate (defaultConfig\<lparr>Host := ''h''\<rparr> :: int Config)))
   \<and> (\<exists>s' evs. execute sampleLib (stubClient 2) 5 (defaultConfig\<lparr>Host := ''h''\<rparr>) 0
         = Some (Some ''failed to read holding registers: request timed out'', s', evs))"
proof -
  let ?w = "defaultConfig\<lparr>Host := ''h'', WriteValues := [7]\<rparr> :: int Config"
  let ?o = "defaultConfig\<lparr>Host := ''h'', PollOnce := True\<rparr> :: int Config"
  let ?c = "defaultConfig\<lparr>Host := ''h''\<rparr> :: int Config"
  let ?err = "''failed to read holding registers: request timed out''"
  let ?evs = "[Call (ReadRegistersCall 1 1 HOLDING_REGISTER),
            Print (Heading ''Holding Registers'' 1 1), Print (Annotated 1 0 Plain),
            Sleep 1000000000,
            Call (ReadRegistersCall 1 1 HOLDING_REGISTER),
            Print (Heading ''Holding Registers'' 1 1), Print (Annotated 1 0 Plain),
            Sleep 1000000000,
            Call (ReadRegistersCall 1 1 HOLDING_REGISTER)]"
  have hw: "WriteValues ?w \<noteq> []" by simp
  have vw: "after (shown ?w) (performWriteOperation sampleLib (stubClient 0) ?w (startAddress ?w) 0)
      = (None, 1, [Call (WriteRegistersCall 1 [7]),
            Print (Wrote 1 ''16-bit register'' 1), Print (EchoReg 1 7)])"
    by code_simp
  have cw: "execute sampleLib (stubClient 0) 0 ?w 0
       = Some (None, 1, [Call (WriteRegistersCall 1 [7]),
            Print (Wrote 1 ''16-bit register'' 1), Print (EchoReg 1 7)])"
    using hw vw write_once_read_once_or_poll[where config = ?w and lib = sampleLib
        and cl = "stubClient 0" and fuel = 0 and s = 0]
    by simp
  have hw1: "DataType ?w \<noteq> ''4:hex''
      \<and> fst (performWriteOperation sampleLib (stubClient 0) ?w (startAddress ?w) 0) = None"
    using vw by (simp add: defaultConfig_def after_def split: prod.splits)
  have cw1: "length (requests (events
      (performWriteOperation sampleLib (stubClient 0) ?w (startAddress ?w) 0))) = 1"
    using hw hw1 write_once_read_once_or_poll[where config = ?w and lib = sampleLib
        and cl = "stubClient 0" and fuel = 0 and s = 0]
    by blast
  have ho: "WriteValues ?o = [] \<and> PollOnce ?o" by (simp add: defaultConfig_def)
  have ho1: "DataType ?o \<in> set [''0'', ''1'', ''3'', ''3:hex'', ''3:int'', ''3:float'',
            ''4'', ''4:hex'', ''4:int'', ''4:float'']"
    by (simp add: defaultConfig_def)
  have co1: "length (requests (events
      (performOperation (stubClient 5) ?o (startAddress ?o) 0))) = 1"
    using ho ho1 write_once_read_once_or_poll[where config = ?o and lib = sampleLib
        and cl = "stubClient 5" and fuel = 0 and s = 0]
    by blast
  have vo: "after (shown ?o) (performOperation (stubClient 5) ?o (startAddress ?o) 0)
      = (None, 1, [Call (ReadRegistersCall 1 1 HOLDING_REGISTER),
            Print (Heading ''Holding Registers'' 1 1), Print (Annotated 1 0 Plain)])"
    by code_simp
  have co: "execute sampleLib (stubClient 5) (Suc 0) ?o 0
       = Some (None, 1, [Call (ReadRegistersCall 1 1 HOLDING_REGISTER),
            Print (Heading ''Holding Registers'' 1 1), Print (Annotated 1 0 Plain)])"
    using ho vo write_once_read_once_or_poll[where config = ?o and lib = sampleLib
        and cl = "stubClient 5" and fuel = 0 and s = 0]
    by simp
  have hc: "WriteValues ?c = [] \<and> \<not> PollOnce ?c" by (simp add: defaultConfig_def)
  have ec: "execute sampleLib (stubClient 2) 5 ?c 0 = Some (Some ?err, 3, ?evs)"
    by code_simp
  have cc: "\<exists>k err. k < 5 \<and> Some ?err = Some err \<and> naps ?evs = replicate k (PollRate ?c)"
    using hc ec write_once_read_once_or_poll[where config = ?c and lib = sampleLib
        and cl = "stubClient 2" and fuel = 5 and s = 0 and r = "Some ?err" and s' = 3
        and evs = ?evs]
    by blast
  have p0: "fst (performOperation (stubClient 2) ?c (startAddress ?c)
      (pollState (stubClient 2) ?c (startAddress ?c) 0 0)) = None"
    by code_simp
  have p1: "fst (performOperation (stubClient 2) ?c (startAddress ?c)
      (pollState (stubClient 2) ?c (startAddress ?c) 0 (Suc 0))) = None"
    by code_simp
  have p2: "fst (performOperation (stubClient 2) ?c (startAddress ?c)
      (pollState (stubClient 2) ?c (startAddress ?c) 0 2)) = Some ?err"
    by code_simp
  have before: "\<forall>j<2. fst (performOperation (stubClient 2) ?c (startAddress ?c)
      (pollState (stubClient 2) ?c (startAddress ?c) 0 j)) = None"
    using p0 p1 less_2_cases by blast
  have fc: "\<exists>s' evs. execute sampleLib (stubClient 2) 5 ?c 0 = Some (Some ?err, s', evs)"
    using hc before p2 write_once_read_once_or_poll[where config = ?c and lib = sampleLib
        and cl = "stubClient 2" and fuel = 5 and s = 0 and n = 2 and e = ?err]
    by simp
  from ho have ho2: "PollOnce ?o" by simp
  from hc have hc2: "\<not> PollOnce ?c" by simp
  show ?thesis by (intro conjI; fact)
qed


end
